theory Spec2Isabelle
  imports Complex_Main "HOL-Library.Sublist" "HOL-Library.Log_Nat"
begin

section \<open>JavaScript values used by the dashboard\<close>

text \<open>
  Amounts and percentages are JavaScript numbers. They are modelled as exact rationals:
  the rounding of IEEE doubles is not part of this development.
  A property that may be missing, \<open>null\<close> or \<open>undefined\<close> is an \<open>option\<close>.
\<close>

text \<open>\<open>x || false\<close> on a flag that may be absent.\<close>

definition or_false :: "bool option \<Rightarrow> bool" where
  "or_false b = (case b of Some v \<Rightarrow> v | None \<Rightarrow> False)"

text \<open>\<open>d || fallback\<close> on a string that may be absent; the empty string is falsy.\<close>

definition or_string :: "string option \<Rightarrow> string \<Rightarrow> string" where
  "or_string d fallback = (case d of Some v \<Rightarrow> (if v = [] then fallback else v) | None \<Rightarrow> fallback)"

text \<open>Decimal rendering of a non-negative integer inside a template literal.\<close>

definition digit_char :: "nat \<Rightarrow> char" where
  "digit_char n = ''0123456789'' ! n"

fun string_of_nat :: "nat \<Rightarrow> string" where
  "string_of_nat n =
     (if n < 10 then [digit_char n] else string_of_nat (n div 10) @ [digit_char (n mod 10)])"

declare string_of_nat.simps [simp del]

text \<open>
  An identifier coming from the database or built by a template literal: a number or a
  string. \<open>===\<close> and \<open>Set.has\<close> never identify a number with a string.
\<close>

datatype jsid = IdNum nat | IdStr string

fun id_truthy :: "jsid \<Rightarrow> bool" where
  "id_truthy (IdNum n) = (n \<noteq> 0)"
| "id_truthy (IdStr s) = (s \<noteq> [])"

fun id_toString :: "jsid \<Rightarrow> string" where
  "id_toString (IdNum n) = string_of_nat n"
| "id_toString (IdStr s) = s"

section \<open>Data model\<close>

record milestone =
  percentage :: rat
  m_due_date :: "string option"
  m_completed :: "bool option"
  m_name :: "string option"

record schedule =
  sched_type :: string
  s_due_date :: "string option"
  s_completed :: "bool option"
  milestones :: "milestone list option"

record project =
  p_id :: jsid
  p_name :: string
  contactName :: string
  p_status :: string
  total_amount :: rat
  payment_schedule :: "schedule option"
  start_date :: "string option"
  p_created_at :: "string option"

text \<open>The data of a transaction as the form or the payment handler builds it.\<close>

record entry =
  date :: string
  entry_type :: string
  title :: string
  description :: string
  amount :: rat

text \<open>A row of the remote \<open>transactions\<close> table: the entry and the key the table gave it.\<close>

record transaction = entry +
  t_id :: nat

definition row_of :: "nat \<Rightarrow> entry \<Rightarrow> transaction" where
  "row_of i e = \<lparr>date = date e, entry_type = entry_type e, title = title e,
     description = description e, amount = amount e, t_id = i\<rparr>"

section \<open>The record store (js/transactions.js)\<close>

text \<open>
  The remote table and the module-level cache \<open>allTransactions\<close>. \<open>online\<close> stands for
  "the client exists, \<open>currentUserId\<close> is set and the remote call does not fail";
  \<open>next_id\<close> is the key the table gives to the next inserted row; \<open>calls\<close> is the
  sequence of mutations sent to the remote table so far. A refetch reads the rows in the
  order of the table, which is the order of insertion.
\<close>

datatype remote_call = Insert entry | Update nat entry | Delete nat

record store =
  online :: bool
  db :: "transaction list"
  allTransactions :: "transaction list"
  next_id :: nat
  calls :: "remote_call list"

definition refetchTransactionData :: "store \<Rightarrow> store" where
  "refetchTransactionData s = (if \<not> online s then s else s\<lparr>allTransactions := db s\<rparr>)"

definition saveEntry :: "entry \<Rightarrow> nat option \<Rightarrow> store \<Rightarrow> bool \<times> store" where
  "saveEntry entryData entryId s =
     (if \<not> online s then (False, s)
      else (case entryId of
              Some i \<Rightarrow>
                (if i \<noteq> 0
                 then (True, refetchTransactionData
                         (s\<lparr>db := map (\<lambda>t. if t_id t = i then row_of i entryData else t) (db s),
                            calls := calls s @ [Update i entryData]\<rparr>))
                 else (True, refetchTransactionData
                         (s\<lparr>db := db s @ [row_of (next_id s) entryData],
                            next_id := Suc (next_id s),
                            calls := calls s @ [Insert entryData]\<rparr>)))
            | None \<Rightarrow>
                (True, refetchTransactionData
                         (s\<lparr>db := db s @ [row_of (next_id s) entryData],
                            next_id := Suc (next_id s),
                            calls := calls s @ [Insert entryData]\<rparr>))))"

definition deleteTransaction :: "nat \<Rightarrow> store \<Rightarrow> bool \<times> store" where
  "deleteTransaction transactionId s =
     (if \<not> online s \<or> transactionId = 0 then (False, s)
      else (True, refetchTransactionData
              (s\<lparr>db := filter (\<lambda>t. t_id t \<noteq> transactionId) (db s),
                 calls := calls s @ [Delete transactionId]\<rparr>)))"

definition getAllTransactions :: "store \<Rightarrow> transaction list" where
  "getAllTransactions s = allTransactions s"

section \<open>Payment reconciliation (js/project-form/ProjectFormPayments.js)\<close>

datatype status_change = NEWLY_PAID | UNPAID | NO_CHANGE

text \<open>\<open>oldMilestone\<close> is \<open>None\<close> when the old schedule has no milestone at that index.\<close>

definition analyzeMilestoneStatusChange :: "milestone \<Rightarrow> milestone option \<Rightarrow> status_change" where
  "analyzeMilestoneStatusChange newMilestone oldMilestone =
     (let newCompleted = or_false (m_completed newMilestone);
          oldCompleted = (case oldMilestone of None \<Rightarrow> False | Some om \<Rightarrow> or_false (m_completed om))
      in if newCompleted \<and> \<not> oldCompleted then NEWLY_PAID
         else if \<not> newCompleted \<and> oldCompleted then UNPAID
         else NO_CHANGE)"

text \<open>\<open>today\<close> is \<open>new Date().toISOString().split('T')[0]\<close>, read from the clock.\<close>

definition createMilestoneIncome :: "string \<Rightarrow> project \<Rightarrow> milestone \<Rightarrow> nat \<Rightarrow> store \<Rightarrow> store" where
  "createMilestoneIncome today projectData ms milestoneIndex s =
     (let milestoneAmount = (total_amount projectData * percentage ms) / 100;
          incomeData = \<lparr>date = or_string (m_due_date ms) today,
                         entry_type = ''income'',
                         title = ''Milestone payment from '' @ p_name projectData,
                         description = ''Milestone payment for '' @ p_name projectData
                            @ '' (Milestone '' @ string_of_nat (milestoneIndex + 1) @ '')'',
                         amount = milestoneAmount\<rparr>
      in snd (saveEntry incomeData None s))"

definition createFullPaymentIncome :: "string \<Rightarrow> project \<Rightarrow> schedule \<Rightarrow> store \<Rightarrow> store" where
  "createFullPaymentIncome today projectData paymentSchedule s =
     (let incomeData = \<lparr>date = or_string (s_due_date paymentSchedule) today,
                         entry_type = ''income'',
                         title = ''Project Payment: '' @ p_name projectData,
                         description = ''Full payment from '' @ contactName projectData,
                         amount = total_amount projectData\<rparr>
      in snd (saveEntry incomeData None s))"

definition removeMilestoneIncome :: "string \<Rightarrow> nat \<Rightarrow> store \<Rightarrow> store" where
  "removeMilestoneIncome projectName milestoneNumber s =
     (let targetTitle = ''Milestone payment from '' @ projectName;
          targetDescription = ''Milestone payment for '' @ projectName
                            @ '' (Milestone '' @ string_of_nat milestoneNumber @ '')''
      in case find (\<lambda>t. entry_type t = ''income''
                        \<and> (title t = targetTitle \<or> description t = targetDescription))
                   (getAllTransactions s) of
           Some incomeToRemove \<Rightarrow> snd (deleteTransaction (t_id incomeToRemove) s)
         | None \<Rightarrow> s)"

definition removeFullPaymentIncome :: "string \<Rightarrow> store \<Rightarrow> store" where
  "removeFullPaymentIncome projectName s =
     (let targetTitle = ''Project Payment: '' @ projectName
      in case find (\<lambda>t. entry_type t = ''income'' \<and> title t = targetTitle)
                   (getAllTransactions s) of
           Some incomeToRemove \<Rightarrow> snd (deleteTransaction (t_id incomeToRemove) s)
         | None \<Rightarrow> s)"

text \<open>
  A run either returns or throws a \<open>TypeError\<close> (a property read on \<open>null\<close> or
  \<open>undefined\<close>); both carry the store as it is at that moment.
\<close>

datatype outcome = Returned store | Thrown store

fun store_of :: "outcome \<Rightarrow> store" where
  "store_of (Returned s) = s"
| "store_of (Thrown s) = s"

text \<open>\<open>xs[i]\<close>: \<open>undefined\<close> out of range.\<close>

definition js_index :: "'a list \<Rightarrow> nat \<Rightarrow> 'a option" where
  "js_index xs i = (if i < length xs then Some (xs ! i) else None)"

text \<open>
  The \<open>for\<close> loop of \<open>handleStaggeredPaymentChanges\<close>, from \<open>index\<close> on; the list is
  what is left of \<open>newSchedule.milestones\<close>.
\<close>

fun staggered_loop ::
  "string \<Rightarrow> project \<Rightarrow> milestone list option \<Rightarrow> nat \<Rightarrow> milestone list \<Rightarrow> store \<Rightarrow> outcome" where
  "staggered_loop today projectData oldMilestones index [] s = Returned s"
| "staggered_loop today projectData oldMilestones index (newMilestone # rest) s =
     (case oldMilestones of
        None \<Rightarrow> Thrown s
      | Some olds \<Rightarrow>
          (case analyzeMilestoneStatusChange newMilestone (js_index olds index) of
             NEWLY_PAID \<Rightarrow>
               staggered_loop today projectData oldMilestones (Suc index) rest
                 (createMilestoneIncome today projectData newMilestone index s)
           | UNPAID \<Rightarrow>
               staggered_loop today projectData oldMilestones (Suc index) rest
                 (removeMilestoneIncome (p_name projectData) (index + 1) s)
           | NO_CHANGE \<Rightarrow>
               staggered_loop today projectData oldMilestones (Suc index) rest s))"

definition handleStaggeredPaymentChanges ::
  "string \<Rightarrow> project \<Rightarrow> schedule \<Rightarrow> schedule \<Rightarrow> store \<Rightarrow> outcome" where
  "handleStaggeredPaymentChanges today projectData newSchedule oldSchedule s =
     (case milestones newSchedule of
        None \<Rightarrow> Thrown s
      | Some news \<Rightarrow> staggered_loop today projectData (milestones oldSchedule) 0 news s)"

definition handleFullPaymentChanges ::
  "string \<Rightarrow> project \<Rightarrow> schedule \<Rightarrow> schedule option \<Rightarrow> store \<Rightarrow> store" where
  "handleFullPaymentChanges today projectData newSchedule oldSchedule s =
     (let wasCompleted = (case oldSchedule of None \<Rightarrow> False | Some os \<Rightarrow> or_false (s_completed os));
          isCompleted = or_false (s_completed newSchedule)
      in if isCompleted \<and> \<not> wasCompleted then createFullPaymentIncome today projectData newSchedule s
         else if \<not> isCompleted \<and> wasCompleted then removeFullPaymentIncome (p_name projectData) s
         else s)"

text \<open>
  The body of the \<open>try\<close> block after the original project was found. The test
  \<open>newSchedule.type === 'staggered' && oldSchedule.type === 'staggered'\<close> reads
  \<open>oldSchedule.type\<close> only when the first conjunct holds.
\<close>

definition route_payment_handler ::
  "string \<Rightarrow> project \<Rightarrow> project \<Rightarrow> store \<Rightarrow> outcome" where
  "route_payment_handler today newProjectData originalProject s =
     (case payment_schedule newProjectData of
        None \<Rightarrow> Thrown s
      | Some newSchedule \<Rightarrow>
          (if sched_type newSchedule = ''staggered''
           then (case payment_schedule originalProject of
                   None \<Rightarrow> Thrown s
                 | Some oldSchedule \<Rightarrow>
                     (if sched_type oldSchedule = ''staggered''
                      then handleStaggeredPaymentChanges today newProjectData newSchedule oldSchedule s
                      else Returned s))
           else if sched_type newSchedule = ''full''
           then Returned (handleFullPaymentChanges today newProjectData newSchedule
                            (payment_schedule originalProject) s)
           else Returned s))"

text \<open>
  \<open>allProjects\<close> is \<open>window.allProjects\<close> and \<open>editingProjectId\<close> the id held by the
  modal. The \<open>catch\<close> only logs, so what was done before a throw stays done.
\<close>

definition handlePaymentStatusChanges ::
  "string \<Rightarrow> project list \<Rightarrow> jsid \<Rightarrow> project \<Rightarrow> store \<Rightarrow> store" where
  "handlePaymentStatusChanges today allProjects editingProjectId newProjectData s =
     (case find (\<lambda>p. p_id p = editingProjectId) allProjects of
        None \<Rightarrow> s
      | Some originalProject \<Rightarrow> store_of (route_payment_handler today newProjectData originalProject s))"

text \<open>The entries sent to the remote table as \<open>insert\<close>, in order.\<close>

fun inserted :: "remote_call list \<Rightarrow> entry list" where
  "inserted [] = []"
| "inserted (Insert e # cs) = e # inserted cs"
| "inserted (Update i e # cs) = inserted cs"
| "inserted (Delete i # cs) = inserted cs"

section \<open>Status derivation (ProjectFormRenderer.autoUpdateProjectStatus)\<close>

text \<open>
  What the function reads from the form: the hidden status input, the checked payment
  type, the "paid" checkbox of a full payment and the milestone rows. \<open>row_percentage\<close>
  is \<open>parseFloat\<close> of the row's percentage input, \<open>None\<close> for \<open>NaN\<close>.
\<close>

record milestone_row =
  row_percentage :: "rat option"
  row_completed :: bool

record form =
  initialStatus :: "string option"
  paymentType :: "string option"
  full_payment_completed :: "bool option"
  milestone_rows :: "milestone_row list"

text \<open>The \<open>forEach\<close> over the rows, on the pair (totalMilestones, completedMilestones).\<close>

fun count_rows :: "milestone_row list \<Rightarrow> nat \<times> nat \<Rightarrow> nat \<times> nat" where
  "count_rows [] acc = acc"
| "count_rows (row # rows) (totalMilestones, completedMilestones) =
     (case row_percentage row of
        None \<Rightarrow> count_rows rows (totalMilestones, completedMilestones)
      | Some pct \<Rightarrow>
          (if pct > 0
           then (if row_completed row
                 then count_rows rows (totalMilestones + 1, completedMilestones + 1)
                 else count_rows rows (totalMilestones + 1, completedMilestones))
           else count_rows rows (totalMilestones, completedMilestones)))"

definition autoUpdateProjectStatus :: "form \<Rightarrow> form" where
  "autoUpdateProjectStatus f =
     (case initialStatus f of
        None \<Rightarrow> f
      | Some currentStatus \<Rightarrow>
          (if currentStatus \<notin> set [''invoice'', ''partially_paid'', ''completed''] then f
           else
             (let newStatus =
                (if paymentType f = Some ''full''
                 then (if or_false (full_payment_completed f) then ''completed'' else ''invoice'')
                 else if paymentType f = Some ''staggered''
                 then (case count_rows (milestone_rows f) (0, 0) of
                         (totalMilestones, completedMilestones) \<Rightarrow>
                           (if totalMilestones = 0 \<or> completedMilestones = 0 then ''invoice''
                            else if completedMilestones = totalMilestones then ''completed''
                            else ''partially_paid''))
                 else ''invoice'')
              in f\<lparr>initialStatus := Some newStatus\<rparr>)))"

text \<open>A row that counts: its percentage is a number greater than zero.\<close>

definition active_row :: "milestone_row \<Rightarrow> bool" where
  "active_row row = (case row_percentage row of None \<Rightarrow> False | Some pct \<Rightarrow> pct > 0)"

section \<open>Project-derived data (loadProjectData in js/transactions.js)\<close>

text \<open>
  Only the properties that the modelled functions read are kept. \<open>parseFloat(x) || 0\<close>
  on an amount that is a number is the amount itself, and so is \<open>x || 0\<close>.
\<close>

record quotation =
  q_id :: jsid
  q_project_id :: "jsid option"
  q_name :: string
  q_amount :: rat
  q_status :: string
  target_date :: "string option"
  q_created_at :: "string option"

record invoice =
  inv_id :: jsid
  inv_project_id :: jsid
  inv_name :: string
  inv_amount :: rat
  inv_due_date :: "string option"
  is_paid :: bool
  inv_project :: "project option"
  milestone_index :: "nat option"

record project_data =
  quotations :: "quotation list"
  invoices :: "invoice list"

text \<open>\<open>a || b\<close> on two strings that may be absent.\<close>

definition or_opt :: "string option \<Rightarrow> string option \<Rightarrow> string option" where
  "or_opt a b = (case a of Some v \<Rightarrow> (if v = [] then b else Some v) | None \<Rightarrow> b)"

fun milestone_invoices :: "project \<Rightarrow> nat \<Rightarrow> milestone list \<Rightarrow> invoice list" where
  "milestone_invoices proj index [] = []"
| "milestone_invoices proj index (ms # rest) =
     \<lparr>inv_id = IdStr (id_toString (p_id proj) @ ''_milestone_'' @ string_of_nat index),
      inv_project_id = p_id proj,
      inv_name = p_name proj @ '' - '' @ or_string (m_name ms) (''Milestone '' @ string_of_nat (index + 1)),
      inv_amount = (total_amount proj * percentage ms) / 100,
      inv_due_date = m_due_date ms,
      is_paid = or_false (m_completed ms),
      inv_project = Some proj,
      milestone_index = Some index\<rparr> # milestone_invoices proj (Suc index) rest"

definition project_invoices :: "project \<Rightarrow> invoice list" where
  "project_invoices proj =
     (if p_status proj \<noteq> ''quotation''
         \<and> p_status proj \<in> set [''invoice'', ''partially_paid'', ''completed'']
      then (case payment_schedule proj of
              None \<Rightarrow> []
            | Some sch \<Rightarrow>
                (if sched_type sch = ''full''
                 then [\<lparr>inv_id = p_id proj, inv_project_id = p_id proj, inv_name = p_name proj,
                        inv_amount = total_amount proj, inv_due_date = s_due_date sch,
                        is_paid = or_false (s_completed sch), inv_project = Some proj,
                        milestone_index = None\<rparr>]
                 else if sched_type sch = ''staggered''
                 then (case milestones sch of None \<Rightarrow> [] | Some mss \<Rightarrow> milestone_invoices proj 0 mss)
                 else []))
      else [])"

definition project_quotations :: "project \<Rightarrow> quotation list" where
  "project_quotations proj =
     (if p_status proj = ''quotation''
      then [\<lparr>q_id = p_id proj, q_project_id = Some (p_id proj), q_name = p_name proj,
             q_amount = total_amount proj, q_status = ''quotation'',
             target_date = start_date proj, q_created_at = p_created_at proj\<rparr>]
      else [])
     @
     (if p_status proj \<in> set [''invoice'', ''partially_paid'', ''completed'']
      then [\<lparr>q_id = p_id proj, q_project_id = Some (p_id proj), q_name = p_name proj,
             q_amount = total_amount proj, q_status = ''converted_quotation'',
             target_date = or_opt (start_date proj)
                             (or_opt (case payment_schedule proj of None \<Rightarrow> None
                                      | Some sch \<Rightarrow> s_due_date sch)
                                     (p_created_at proj)),
             q_created_at = p_created_at proj\<rparr>]
      else [])"

fun loadProjectData :: "project list \<Rightarrow> project_data" where
  "loadProjectData [] = \<lparr>quotations = [], invoices = []\<rparr>"
| "loadProjectData (proj # projects) =
     (let r = loadProjectData projects
      in \<lparr>quotations = project_quotations proj @ quotations r,
          invoices = project_invoices proj @ invoices r\<rparr>)"

section \<open>Calendar day view (js/transactions.js)\<close>

definition shouldShowAsPayable :: "project \<Rightarrow> bool" where
  "shouldShowAsPayable proj =
     (if p_status proj \<notin> set [''invoice'', ''partially_paid''] then False
      else (case payment_schedule proj of
              None \<Rightarrow> True
            | Some sch \<Rightarrow>
                (if sched_type sch = ''full''
                 then (if or_false (s_completed sch) then False else True)
                 else if sched_type sch = ''staggered'' then True
                 else True)))"

datatype day_item = Txn transaction | Payable invoice

definition getTransactionsForDate ::
  "string \<Rightarrow> project_data \<Rightarrow> transaction list \<Rightarrow> day_item list" where
  "getTransactionsForDate dateString projectData txns =
     (let projectInvoices =
            filter (\<lambda>iv.
                      let isForDate = (inv_due_date iv = Some dateString);
                          shouldBeShown = (case inv_project iv of
                                             Some proj \<Rightarrow> shouldShowAsPayable proj
                                           | None \<Rightarrow> \<not> is_paid iv)
                      in isForDate \<and> shouldBeShown)
                   (invoices projectData);
          paidInvoiceTitles = set (map inv_name (filter is_paid (invoices projectData)));
          filteredTransactions =
            filter (\<lambda>t. date t = dateString \<and> title t \<notin> paidInvoiceTitles) txns
      in map Txn filteredTransactions @ map Payable projectInvoices)"

section \<open>Monthly aggregation (processAllTransactions in js/transactions.js)\<close>

text \<open>
  The viewed date, as \<open>getFullYear()\<close> and \<open>getMonth()\<close> (0 to 11) give it. The \<open>Date\<close>
  constructor maps the years 0 to 99 to 1900 to 1999; the model is of the years from 100 on.
\<close>

record view_date =
  vd_year :: nat
  vd_month :: nat

text \<open>\<open>new Date(year, month - 1, 1)\<close>.\<close>

definition lastMonthDate :: "view_date \<Rightarrow> view_date" where
  "lastMonthDate now =
     (if vd_month now = 0 then \<lparr>vd_year = vd_year now - 1, vd_month = 11\<rparr>
      else \<lparr>vd_year = vd_year now, vd_month = vd_month now - 1\<rparr>)"

definition padStart2 :: "string \<Rightarrow> string" where
  "padStart2 str = replicate (2 - length str) (CHR ''0'') @ str"

definition monthString :: "view_date \<Rightarrow> string" where
  "monthString d = string_of_nat (vd_year d) @ ''-'' @ padStart2 (string_of_nat (vd_month d + 1))"

record month_totals =
  cashIn :: rat
  cashOut :: rat
  payable :: rat
  quotation_total :: rat
  quotationCount :: nat
  totalInvoice :: rat

text \<open>\<open>quotation_total\<close> is the property \<open>quotation\<close> of the two monthly objects.\<close>

record summary =
  totalCurrentBalance :: rat
  overallTotalPayable :: rat
  thisMonth :: month_totals
  lastMonth :: month_totals
  thisMonthPaidInvoiceAmount :: rat
  thisMonthTotalInvoiceAmount :: rat

definition zero_totals :: month_totals where
  "zero_totals = \<lparr>cashIn = 0, cashOut = 0, payable = 0, quotation_total = 0,
     quotationCount = 0, totalInvoice = 0\<rparr>"

definition initial_summary :: summary where
  "initial_summary = \<lparr>totalCurrentBalance = 0, overallTotalPayable = 0,
     thisMonth = zero_totals, lastMonth = zero_totals,
     thisMonthPaidInvoiceAmount = 0, thisMonthTotalInvoiceAmount = 0\<rparr>"

text \<open>The body of \<open>allTransactions.forEach\<close>.\<close>

definition transaction_step :: "string \<Rightarrow> string \<Rightarrow> transaction \<Rightarrow> summary \<Rightarrow> summary" where
  "transaction_step thisMonthString lastMonthString data acc =
     (let acc1 = (if entry_type data = ''income''
                  then acc\<lparr>totalCurrentBalance := totalCurrentBalance acc + amount data\<rparr> else acc);
          acc2 = (if entry_type data = ''expense''
                  then acc1\<lparr>totalCurrentBalance := totalCurrentBalance acc1 - amount data\<rparr> else acc1)
      in if prefix thisMonthString (date data)
         then (let tm1 = (if entry_type data = ''income''
                          then (thisMonth acc2)\<lparr>cashIn := cashIn (thisMonth acc2) + amount data\<rparr>
                          else thisMonth acc2);
                   tm2 = (if entry_type data = ''expense''
                          then tm1\<lparr>cashOut := cashOut tm1 + amount data\<rparr> else tm1)
               in acc2\<lparr>thisMonth := tm2\<rparr>)
         else if prefix lastMonthString (date data)
         then (let lm1 = (if entry_type data = ''income''
                          then (lastMonth acc2)\<lparr>cashIn := cashIn (lastMonth acc2) + amount data\<rparr>
                          else lastMonth acc2);
                   lm2 = (if entry_type data = ''expense''
                          then lm1\<lparr>cashOut := cashOut lm1 + amount data\<rparr> else lm1)
               in acc2\<lparr>lastMonth := lm2\<rparr>)
         else acc2)"

fun transactions_pass :: "string \<Rightarrow> string \<Rightarrow> transaction list \<Rightarrow> summary \<Rightarrow> summary" where
  "transactions_pass thisMonthString lastMonthString [] acc = acc"
| "transactions_pass thisMonthString lastMonthString (data # rest) acc =
     transactions_pass thisMonthString lastMonthString rest
       (transaction_step thisMonthString lastMonthString data acc)"

text \<open>\<open>invoice.due_date?.startsWith(s)\<close>.\<close>

definition due_startsWith :: "string option \<Rightarrow> string \<Rightarrow> bool" where
  "due_startsWith d str = (case d of None \<Rightarrow> False | Some v \<Rightarrow> prefix str v)"

text \<open>The body of \<open>projectData.invoices.forEach\<close>, with the set of counted project ids.\<close>

definition invoice_step ::
  "string \<Rightarrow> string \<Rightarrow> invoice \<Rightarrow> summary \<times> jsid set \<Rightarrow> summary \<times> jsid set" where
  "invoice_step thisMonthString lastMonthString iv st =
     (let acc = fst st; counted = snd st;
          acc1 = (if \<not> is_paid iv
                  then acc\<lparr>overallTotalPayable := overallTotalPayable acc + inv_amount iv\<rparr> else acc)
      in if due_startsWith (inv_due_date iv) thisMonthString
         then (let st2 = (case inv_project iv of
                            None \<Rightarrow> (acc1, counted)
                          | Some proj \<Rightarrow>
                              (if p_id proj \<notin> counted
                               then (acc1\<lparr>thisMonth := (thisMonth acc1)
                                             \<lparr>totalInvoice := totalInvoice (thisMonth acc1) + total_amount proj\<rparr>,
                                           thisMonthTotalInvoiceAmount :=
                                             thisMonthTotalInvoiceAmount acc1 + total_amount proj\<rparr>,
                                     insert (p_id proj) counted)
                               else (acc1, counted)))
               in if is_paid iv
                  then ((fst st2)\<lparr>thisMonthPaidInvoiceAmount :=
                                    thisMonthPaidInvoiceAmount (fst st2) + inv_amount iv\<rparr>, snd st2)
                  else st2)
         else if due_startsWith (inv_due_date iv) lastMonthString
         then (acc1\<lparr>lastMonth := (lastMonth acc1)\<lparr>payable := payable (lastMonth acc1) + inv_amount iv\<rparr>\<rparr>,
               counted)
         else (acc1, counted))"

fun invoices_pass ::
  "string \<Rightarrow> string \<Rightarrow> invoice list \<Rightarrow> summary \<times> jsid set \<Rightarrow> summary \<times> jsid set" where
  "invoices_pass thisMonthString lastMonthString [] st = st"
| "invoices_pass thisMonthString lastMonthString (iv # rest) st =
     invoices_pass thisMonthString lastMonthString rest
       (invoice_step thisMonthString lastMonthString iv st)"

text \<open>
  \<open>id.toString().split('_milestone_')[0]\<close>: what stands before the first occurrence of
  the separator, the whole string when there is none.
\<close>

fun split_head :: "string \<Rightarrow> string \<Rightarrow> string" where
  "split_head sep [] = []"
| "split_head sep (c # cs) = (if prefix sep (c # cs) then [] else c # split_head sep cs)"

definition actualProjectId :: "quotation \<Rightarrow> jsid" where
  "actualProjectId q =
     (case q_project_id q of
        Some i \<Rightarrow> (if id_truthy i then i else IdStr (split_head ''_milestone_'' (id_toString (q_id q))))
      | None \<Rightarrow> IdStr (split_head ''_milestone_'' (id_toString (q_id q))))"

text \<open>
  \<open>parseDate x\<close> stands for \<open>new Date(x)\<close> read with \<open>getFullYear()\<close> and
  \<open>getMonth()\<close> in the local time zone, \<open>None\<close> for an invalid date. It is a parameter.
\<close>

definition in_month :: "(string option \<Rightarrow> (nat \<times> nat) option) \<Rightarrow> view_date \<Rightarrow> quotation \<Rightarrow> bool" where
  "in_month parseDate d q =
     (case parseDate (or_opt (target_date q) (q_created_at q)) of
        None \<Rightarrow> False
      | Some (y, m) \<Rightarrow> y = vd_year d \<and> m = vd_month d)"

record quotation_state =
  qs_thisMonth :: month_totals
  qs_lastMonth :: month_totals
  projectsThisMonth :: "jsid set"
  projectsLastMonth :: "jsid set"

text \<open>The body of \<open>projectData.quotations.forEach\<close>.\<close>

definition quotation_step ::
  "(string option \<Rightarrow> (nat \<times> nat) option) \<Rightarrow> view_date \<Rightarrow> quotation \<Rightarrow> quotation_state \<Rightarrow> quotation_state" where
  "quotation_step parseDate now q st =
     (let actualId = actualProjectId q;
          isThisMonth = in_month parseDate now q;
          isLastMonth = in_month parseDate (lastMonthDate now) q
      in if isThisMonth \<and> actualId \<notin> projectsThisMonth st
         then st\<lparr>qs_thisMonth := (qs_thisMonth st)
                    \<lparr>quotation_total := quotation_total (qs_thisMonth st) + q_amount q,
                     quotationCount := quotationCount (qs_thisMonth st) + 1\<rparr>,
                  projectsThisMonth := insert actualId (projectsThisMonth st)\<rparr>
         else if isLastMonth \<and> actualId \<notin> projectsLastMonth st
         then st\<lparr>qs_lastMonth := (qs_lastMonth st)
                    \<lparr>quotation_total := quotation_total (qs_lastMonth st) + q_amount q,
                     quotationCount := quotationCount (qs_lastMonth st) + 1\<rparr>,
                  projectsLastMonth := insert actualId (projectsLastMonth st)\<rparr>
         else st)"

fun quotations_pass ::
  "(string option \<Rightarrow> (nat \<times> nat) option) \<Rightarrow> view_date \<Rightarrow> quotation list \<Rightarrow> quotation_state \<Rightarrow> quotation_state" where
  "quotations_pass parseDate now [] st = st"
| "quotations_pass parseDate now (q # rest) st =
     quotations_pass parseDate now rest (quotation_step parseDate now q st)"

definition processAllTransactions ::
  "(string option \<Rightarrow> (nat \<times> nat) option) \<Rightarrow> project_data \<Rightarrow> transaction list \<Rightarrow> view_date \<Rightarrow> summary" where
  "processAllTransactions parseDate projectData txns now =
     (let thisMonthString = monthString now;
          lastMonthString = monthString (lastMonthDate now);
          acc1 = transactions_pass thisMonthString lastMonthString txns initial_summary;
          acc2 = fst (invoices_pass thisMonthString lastMonthString (invoices projectData) (acc1, {}));
          qs = quotations_pass parseDate now (quotations projectData)
                 \<lparr>qs_thisMonth = thisMonth acc2, qs_lastMonth = lastMonth acc2,
                  projectsThisMonth = {}, projectsLastMonth = {}\<rparr>
      in acc2\<lparr>thisMonth := qs_thisMonth qs, lastMonth := qs_lastMonth qs\<rparr>)"

section \<open>Double arithmetic\<close>

text \<open>
  A JavaScript number is an IEEE 754 double. \<open>double_round\<close> gives the double nearest to
  a rational, ties to the even significand, for the normal range (53 significant bits;
  no overflow and no subnormals, from which the amounts of the dashboard are far).
  \<open>binade x\<close> is the exponent \<open>e\<close> with \<open>2 ^ e \<le> x < 2 ^ (e + 1)\<close> for a positive \<open>x\<close>.
  \<open>js_mul\<close>, \<open>js_div\<close> and \<open>js_add\<close> are \<open>*\<close>, \<open>/\<close> and \<open>+\<close> on doubles. The payment
  handlers above keep their arithmetic exact; \<open>milestoneAmount_double\<close> is the value that
  the expression \<open>(projectData.total_amount * milestone.percentage) / 100\<close> of
  \<open>createMilestoneIncome\<close> has in doubles.
\<close>

definition pow2 :: "int \<Rightarrow> rat" where
  "pow2 e = (if 0 \<le> e then 2 ^ nat e else 1 / 2 ^ nat (- e))"

definition round_half_even :: "rat \<Rightarrow> int" where
  "round_half_even q =
     (let f = \<lfloor>q\<rfloor>; r = q - of_int f
      in if r < 1 / 2 then f else if 1 / 2 < r then f + 1 else if even f then f else f + 1)"

definition binade :: "rat \<Rightarrow> int" where
  "binade x = (if 1 \<le> x then bitlen \<lfloor>x\<rfloor> - 1 else - bitlen (\<lceil>1 / x\<rceil> - 1))"

definition double_round :: "rat \<Rightarrow> rat" where
  "double_round x =
     (if x = 0 then 0
      else (let u = pow2 (binade \<bar>x\<bar> - 52)
            in of_int (round_half_even (x / u)) * u))"



definition js_add :: "rat \<Rightarrow> rat \<Rightarrow> rat" where
  "js_add x y = double_round (x + y)"


section \<open>Concrete projects and stores\<close>

definition unpaid_50 :: "string \<Rightarrow> milestone" where
  "unpaid_50 due = \<lparr>percentage = 50, m_due_date = Some due, m_completed = Some False, m_name = None\<rparr>"

definition paid_50 :: "string \<Rightarrow> milestone" where
  "paid_50 due = \<lparr>percentage = 50, m_due_date = Some due, m_completed = Some True, m_name = None\<rparr>"

definition staggered_of :: "milestone list \<Rightarrow> schedule" where
  "staggered_of mss = \<lparr>sched_type = ''staggered'', s_due_date = None, s_completed = None,
     milestones = Some mss\<rparr>"

definition full_of :: "string \<Rightarrow> bool \<Rightarrow> schedule" where
  "full_of due paid = \<lparr>sched_type = ''full'', s_due_date = Some due, s_completed = Some paid,
     milestones = None\<rparr>"

definition website :: "string \<Rightarrow> schedule \<Rightarrow> project" where
  "website st sch = \<lparr>p_id = IdNum 7, p_name = ''Website'', contactName = ''Acme'', p_status = st,
     total_amount = 1000, payment_schedule = Some sch, start_date = None, p_created_at = None\<rparr>"

definition empty_store :: store where
  "empty_store = \<lparr>online = True, db = [], allTransactions = [], next_id = 1, calls = []\<rparr>"

section \<open>Auxiliary notions for the statements\<close>

text \<open>
  A store as the remote table keeps it: keys are distinct, non-zero and below the next
  key, and the cache holds what the last refetch read.
\<close>

definition store_consistent :: "store \<Rightarrow> bool" where
  "store_consistent s =
     (allTransactions s = db s \<and> distinct (map t_id (db s))
      \<and> list_all (\<lambda>t. 0 < t_id t \<and> t_id t < next_id s) (db s))"

text \<open>Stores with rows as the payment handlers create them.\<close>

definition two_incomes :: store where
  "two_incomes = \<lparr>online = True,
     db = [\<lparr>date = ''2025-08-05'', entry_type = ''income'', title = ''Milestone payment from Website'',
            description = ''Milestone payment for Website (Milestone 1)'', amount = 300, t_id = 1\<rparr>,
           \<lparr>date = ''2025-09-05'', entry_type = ''income'', title = ''Milestone payment from Website'',
            description = ''Milestone payment for Website (Milestone 2)'', amount = 700, t_id = 2\<rparr>],
     allTransactions =
          [\<lparr>date = ''2025-08-05'', entry_type = ''income'', title = ''Milestone payment from Website'',
            description = ''Milestone payment for Website (Milestone 1)'', amount = 300, t_id = 1\<rparr>,
           \<lparr>date = ''2025-09-05'', entry_type = ''income'', title = ''Milestone payment from Website'',
            description = ''Milestone payment for Website (Milestone 2)'', amount = 700, t_id = 2\<rparr>],
     next_id = 3, calls = []\<rparr>"

definition one_full_income :: store where
  "one_full_income = \<lparr>online = True,
     db = [\<lparr>date = ''2025-08-05'', entry_type = ''income'', title = ''Project Payment: Website'',
            description = ''Full payment from Acme'', amount = 1000, t_id = 1\<rparr>],
     allTransactions =
          [\<lparr>date = ''2025-08-05'', entry_type = ''income'', title = ''Project Payment: Website'',
            description = ''Full payment from Acme'', amount = 1000, t_id = 1\<rparr>],
     next_id = 2, calls = [Insert \<lparr>date = ''2025-08-05'', entry_type = ''income'',
            title = ''Project Payment: Website'',
            description = ''Full payment from Acme'', amount = 1000\<rparr>]\<rparr>"

text \<open>
  Milestone \<open>i\<close> goes from unpaid (or absent in the old schedule) to paid, and the entry
  that \<open>createMilestoneIncome\<close> builds for it.
\<close>

definition newly_paid :: "milestone list \<Rightarrow> milestone list \<Rightarrow> nat \<Rightarrow> bool" where
  "newly_paid news olds i =
     (or_false (m_completed (news ! i)) \<and> \<not> (i < length olds \<and> or_false (m_completed (olds ! i))))"

definition milestone_income :: "string \<Rightarrow> project \<Rightarrow> milestone list \<Rightarrow> nat \<Rightarrow> entry" where
  "milestone_income today projectData news i =
     \<lparr>date = (case m_due_date (news ! i) of
                Some d \<Rightarrow> (if d = [] then today else d) | None \<Rightarrow> today),
      entry_type = ''income'',
      title = ''Milestone payment from '' @ p_name projectData,
      description = ''Milestone payment for '' @ p_name projectData
                      @ '' (Milestone '' @ string_of_nat (i + 1) @ '')'',
      amount = total_amount projectData * (percentage (news ! i) / 100)\<rparr>"


text \<open>
  A sequence of saves of one project (\<open>save\<close> in js/project-form-modal.js, with the save
  callback of js/sidebar-nav.js): a save without a project name does nothing; otherwise,
  when the modal edits a project and the form gives a payment schedule, the payment handler
  runs against the version held in \<open>window.allProjects\<close>; then the project row is updated
  and refetched, so the next save is compared with the version just saved.
\<close>

fun saves :: "string \<Rightarrow> project \<Rightarrow> project list \<Rightarrow> store \<Rightarrow> store" where
  "saves today original [] s = s"
| "saves today original (projectData # later) s =
     (if p_name projectData = [] then saves today original later s
      else saves today projectData later
             (if id_truthy (p_id original) \<and> payment_schedule projectData \<noteq> None
              then handlePaymentStatusChanges today [original] (p_id original) projectData s
              else s))"

text \<open>
  The income rows of a full schedule, by the title \<open>createFullPaymentIncome\<close> gives them,
  and of milestone \<open>n\<close>, by the description \<open>createMilestoneIncome\<close> gives them.
\<close>

definition full_payment_records :: "string \<Rightarrow> store \<Rightarrow> transaction list" where
  "full_payment_records projectName s =
     filter (\<lambda>t. entry_type t = ''income'' \<and> title t = ''Project Payment: '' @ projectName) (db s)"

definition milestone_records :: "string \<Rightarrow> nat \<Rightarrow> store \<Rightarrow> transaction list" where
  "milestone_records projectName n s =
     filter (\<lambda>t. entry_type t = ''income''
                 \<and> description t = ''Milestone payment for '' @ projectName
                       @ '' (Milestone '' @ string_of_nat n @ '')'') (db s)"

text \<open>A form with two counting rows, one of them paid, a row at 0 percent and a row that is not a number.\<close>

definition sample_form :: form where
  "sample_form = \<lparr>initialStatus = Some ''invoice'', paymentType = Some ''staggered'',
     full_payment_completed = None,
     milestone_rows = [\<lparr>row_percentage = Some 50, row_completed = True\<rparr>,
                       \<lparr>row_percentage = Some 0, row_completed = True\<rparr>,
                       \<lparr>row_percentage = None, row_completed = True\<rparr>,
                       \<lparr>row_percentage = Some 50, row_completed = False\<rparr>]\<rparr>"

text \<open>A form with a full payment whose paid box is checked.\<close>

definition paid_full_form :: form where
  "paid_full_form = \<lparr>initialStatus = Some ''invoice'', paymentType = Some ''full'',
     full_payment_completed = Some True, milestone_rows = []\<rparr>"


text \<open>August 2025 as the viewed month, and three transactions.\<close>

definition aug_2025 :: view_date where
  "aug_2025 = \<lparr>vd_year = 2025, vd_month = 7\<rparr>"


text \<open>A date reader that knows two days of August 2025, and two entries of one project.\<close>

definition aug_dates :: "string option \<Rightarrow> (nat \<times> nat) option" where
  "aug_dates d = (if d = Some ''2025-08-01'' \<or> d = Some ''2025-08-05'' then Some (2025, 7) else None)"

definition quote_p7 :: quotation where
  "quote_p7 = \<lparr>q_id = IdStr ''p7'', q_project_id = Some (IdStr ''p7''), q_name = ''Website'',
     q_amount = 1000, q_status = ''converted_quotation'', target_date = Some ''2025-08-01'',
     q_created_at = None\<rparr>"

definition quote_p7_milestone :: quotation where
  "quote_p7_milestone = \<lparr>q_id = IdStr ''p7_milestone_0'', q_project_id = None,
     q_name = ''Website - Milestone 1'', q_amount = 500, q_status = ''converted_quotation'',
     target_date = Some ''2025-08-05'', q_created_at = None\<rparr>"

text \<open>A project with its first milestone paid, and the income row created for that milestone.\<close>

definition part_paid_website :: project where
  "part_paid_website =
     website ''partially_paid'' (staggered_of [paid_50 ''2025-08-05'', unpaid_50 ''2025-09-05''])"

definition milestone_1_income :: transaction where
  "milestone_1_income = \<lparr>date = ''2025-08-05'', entry_type = ''income'',
     title = ''Milestone payment from Website'',
     description = ''Milestone payment for Website (Milestone 1)'', amount = 500, t_id = 1\<rparr>"

section \<open>Frame property of the router\<close>

lemma inserted_append: "inserted (xs @ ys) = inserted xs @ inserted ys"
  by (induction xs rule: inserted.induct) simp_all

text \<open>
  C10. On a save, when no original project is found, or the new schedule is absent, or
  the new type is \<open>staggered\<close> while the previous schedule is absent or not
  \<open>staggered\<close>, or the new type is neither \<open>staggered\<close> nor \<open>full\<close>, the store
  (remote table, cache and calls sent) is left as it was.
\<close>

theorem C10_no_route_leaves_store:
  assumes "find (\<lambda>p. p_id p = editingProjectId) allProjects = None
         \<or> (\<exists>orig. find (\<lambda>p. p_id p = editingProjectId) allProjects = Some orig
              \<and> (payment_schedule newProjectData = None
                 \<or> (\<exists>ns. payment_schedule newProjectData = Some ns
                      \<and> ((sched_type ns = ''staggered''
                            \<and> (payment_schedule orig = None
                               \<or> (\<exists>os. payment_schedule orig = Some os \<and> sched_type os \<noteq> ''staggered'')))
                         \<or> (sched_type ns \<noteq> ''staggered'' \<and> sched_type ns \<noteq> ''full'')))))"
  shows "handlePaymentStatusChanges today allProjects editingProjectId newProjectData s = s"
  using assms
  by (auto simp: handlePaymentStatusChanges_def route_payment_handler_def split: option.splits)

theorem C10_no_route_leaves_store_witness:
  "handlePaymentStatusChanges ''2025-08-01''
     [website ''invoice'' (full_of ''2025-08-05'' False)] (IdNum 7)
     (website ''partially_paid'' (staggered_of [paid_50 ''2025-08-05'', unpaid_50 ''2025-09-05'']))
     empty_store = empty_store"
  by (rule C10_no_route_leaves_store) (simp add: website_def full_of_def staggered_of_def)

section \<open>Store lemmas and the reconciliation engine\<close>

lemma filter_by_id_remove1:
  "distinct (map t_id xs) \<Longrightarrow> m \<in> set xs \<Longrightarrow> filter (\<lambda>t. t_id t \<noteq> t_id m) xs = remove1 m xs"
proof (induction xs)
  case Nil
  then show ?case by simp
next
  case (Cons x xs)
  show ?case
  proof (cases "x = m")
    case True
    have "\<forall>t\<in>set xs. t_id t \<noteq> t_id m" using Cons.prems True by (auto simp: image_iff)
    then have "filter (\<lambda>t. t_id t \<noteq> t_id m) xs = xs" by (simp add: filter_id_conv)
    with True show ?thesis by simp
  next
    case False
    then have "m \<in> set xs" using Cons.prems by simp
    moreover have "t_id x \<noteq> t_id m" using Cons.prems False \<open>m \<in> set xs\<close> by auto
    ultimately show ?thesis using Cons False by simp
  qed
qed

lemma find_in_set: "find P xs = Some x \<Longrightarrow> x \<in> set xs \<and> P x"
  by (induction xs) (auto split: if_splits)

lemma deleteTransaction_found:
  assumes "online s" "store_consistent s" "m \<in> set (db s)"
  shows "snd (deleteTransaction (t_id m) s)
       = s\<lparr>db := remove1 m (db s), allTransactions := remove1 m (db s),
            calls := calls s @ [Delete (t_id m)]\<rparr>"
proof -
  have nz: "t_id m \<noteq> 0" using assms by (auto simp: store_consistent_def list_all_iff)
  have "filter (\<lambda>t. t_id t \<noteq> t_id m) (db s) = remove1 m (db s)"
    using assms by (simp add: filter_by_id_remove1 store_consistent_def)
  then show ?thesis using assms(1) nz
    by (simp add: deleteTransaction_def refetchTransactionData_def)
qed

lemma removeMilestoneIncome_eq:
  assumes "online s" "store_consistent s"
  shows "removeMilestoneIncome projectName n s =
     (case find (\<lambda>t. entry_type t = ''income''
                    \<and> (title t = ''Milestone payment from '' @ projectName
                       \<or> description t = ''Milestone payment for '' @ projectName
                            @ '' (Milestone '' @ string_of_nat n @ '')'')) (db s) of
        None \<Rightarrow> s
      | Some m \<Rightarrow> s\<lparr>db := remove1 m (db s), allTransactions := remove1 m (db s),
                     calls := calls s @ [Delete (t_id m)]\<rparr>)"
proof -
  have c: "allTransactions s = db s" using assms by (simp add: store_consistent_def)
  show ?thesis
    using assms deleteTransaction_found[OF assms]
    by (auto simp: removeMilestoneIncome_def getAllTransactions_def c Let_def
        split: option.splits dest: find_in_set)
qed

lemma removeFullPaymentIncome_eq:
  assumes "online s" "store_consistent s"
  shows "removeFullPaymentIncome projectName s =
     (case find (\<lambda>t. entry_type t = ''income'' \<and> title t = ''Project Payment: '' @ projectName) (db s) of
        None \<Rightarrow> s
      | Some m \<Rightarrow> s\<lparr>db := remove1 m (db s), allTransactions := remove1 m (db s),
                     calls := calls s @ [Delete (t_id m)]\<rparr>)"
proof -
  have c: "allTransactions s = db s" using assms by (simp add: store_consistent_def)
  show ?thesis
    using assms deleteTransaction_found[OF assms]
    by (auto simp: removeFullPaymentIncome_def getAllTransactions_def c Let_def
        split: option.splits dest: find_in_set)
qed

lemma saveEntry_insert:
  assumes "online s"
  shows "snd (saveEntry e None s)
       = s\<lparr>db := db s @ [row_of (next_id s) e], allTransactions := db s @ [row_of (next_id s) e],
            next_id := Suc (next_id s), calls := calls s @ [Insert e]\<rparr>"
  using assms by (simp add: saveEntry_def refetchTransactionData_def)


lemma removeMilestoneIncome_offline: "\<not> online s \<Longrightarrow> removeMilestoneIncome projectName n s = s"
  by (simp add: removeMilestoneIncome_def deleteTransaction_def Let_def split: option.splits)

text \<open>
  C9. On a store whose cache mirrors the table and whose keys are distinct and non-zero,
  \<open>removeMilestoneIncome projectName n\<close> removes at most one row: the first row of the
  list with type income whose title is "Milestone payment from" the project name or whose
  description names milestone \<open>n\<close> (none when the store cannot be reached or no row
  matches). The title test does not mention \<open>n\<close>: when every income row carrying a
  milestone description of the project also carries that title, the result is the same for
  every milestone number, so the row removed is fixed by its position in the list.
\<close>

theorem C9_removeMilestoneIncome_first_match:
  assumes "store_consistent s"
  shows "removeMilestoneIncome projectName n s =
          (case find (\<lambda>t. entry_type t = ''income''
                         \<and> (title t = ''Milestone payment from '' @ projectName
                            \<or> description t = ''Milestone payment for '' @ projectName
                                 @ '' (Milestone '' @ string_of_nat n @ '')'')) (db s) of
             None \<Rightarrow> s
           | Some m \<Rightarrow>
               (if online s
                then s\<lparr>db := remove1 m (db s), allTransactions := remove1 m (db s),
                       calls := calls s @ [Delete (t_id m)]\<rparr>
                else s))
       \<and> length (db s) \<le> Suc (length (db (removeMilestoneIncome projectName n s)))
       \<and> ((\<forall>t\<in>set (db s). \<forall>k. entry_type t = ''income''
               \<and> description t = ''Milestone payment for '' @ projectName
                     @ '' (Milestone '' @ string_of_nat k @ '')''
               \<longrightarrow> title t = ''Milestone payment from '' @ projectName)
            \<longrightarrow> removeMilestoneIncome projectName n s = removeMilestoneIncome projectName n' s)"
proof (intro conjI impI)
  let ?P = "\<lambda>k t. entry_type t = ''income''
                         \<and> (title t = ''Milestone payment from '' @ projectName
                            \<or> description t = ''Milestone payment for '' @ projectName
                                 @ '' (Milestone '' @ string_of_nat k @ '')'')"
  show eq: "removeMilestoneIncome projectName n s =
          (case find (?P n) (db s) of
             None \<Rightarrow> s
           | Some m \<Rightarrow>
               (if online s
                then s\<lparr>db := remove1 m (db s), allTransactions := remove1 m (db s),
                       calls := calls s @ [Delete (t_id m)]\<rparr>
                else s))"
  proof (cases "online s")
    case True
    then show ?thesis using removeMilestoneIncome_eq[OF True assms, of projectName n]
      by (simp split: option.splits)
  next
    case False
    then show ?thesis by (simp add: removeMilestoneIncome_offline split: option.splits)
  qed
  show "length (db s) \<le> Suc (length (db (removeMilestoneIncome projectName n s)))"
    by (subst eq) (auto split: option.splits dest!: find_in_set simp: length_remove1)
  assume all: "\<forall>t\<in>set (db s). \<forall>k. entry_type t = ''income''
               \<and> description t = ''Milestone payment for '' @ projectName
                     @ '' (Milestone '' @ string_of_nat k @ '')''
               \<longrightarrow> title t = ''Milestone payment from '' @ projectName"
  have "find (?P n) (db s) = find (?P n') (db s)"
    by (rule find_cong[OF refl]) (use all in blast)
  moreover have "allTransactions s = db s" using assms by (simp add: store_consistent_def)
  ultimately show "removeMilestoneIncome projectName n s = removeMilestoneIncome projectName n' s"
    by (simp add: removeMilestoneIncome_def getAllTransactions_def Let_def)
qed

lemma string_of_nat_digit: "n < 10 \<Longrightarrow> string_of_nat n = [digit_char n]"
  by (simp add: string_of_nat.simps)

lemma two_incomes_consistent: "store_consistent two_incomes"
  by (simp add: store_consistent_def two_incomes_def)

theorem C9_removeMilestoneIncome_first_match_witness:
  "store_consistent two_incomes
   \<and> db (removeMilestoneIncome ''Website'' 2 two_incomes) =
       [\<lparr>date = ''2025-09-05'', entry_type = ''income'', title = ''Milestone payment from Website'',
         description = ''Milestone payment for Website (Milestone 2)'', amount = 700, t_id = 2\<rparr>]
   \<and> removeMilestoneIncome ''Website'' 2 two_incomes = removeMilestoneIncome ''Website'' 1 two_incomes"
proof -
  note w = C9_removeMilestoneIncome_first_match[OF two_incomes_consistent, of "''Website''" 2 1]
  have a: "db (removeMilestoneIncome ''Website'' 2 two_incomes) =
       [\<lparr>date = ''2025-09-05'', entry_type = ''income'', title = ''Milestone payment from Website'',
         description = ''Milestone payment for Website (Milestone 2)'', amount = 700, t_id = 2\<rparr>]"
    by (subst w[THEN conjunct1]) (simp add: two_incomes_def)
  have b: "removeMilestoneIncome ''Website'' 2 two_incomes = removeMilestoneIncome ''Website'' 1 two_incomes"
    by (rule w[THEN conjunct2, THEN conjunct2, THEN mp]) (simp add: two_incomes_def)
  show ?thesis using two_incomes_consistent a b by simp
qed


text \<open>
  C2. On a save of a full schedule where the original project is found, with the store
  reachable and consistent: when the completed flag goes from false (or absent) to true the
  store gains exactly one row, an income entry with amount \<open>total_amount\<close>, titled
  "Project Payment:" and the project name, dated at the schedule's due date or today when
  there is none; when it goes from true to false the first income row with that title is
  removed when there is one and nothing is inserted; when the flag does not change the
  store is left as it was.
\<close>

theorem C2_full_payment_toggle:
  assumes "online s" and "store_consistent s"
      and "find (\<lambda>p. p_id p = editingProjectId) allProjects = Some orig"
      and "payment_schedule newProjectData = Some ns" and "sched_type ns = ''full''"
      and "was = (case payment_schedule orig of None \<Rightarrow> False | Some os \<Rightarrow> or_false (s_completed os))"
  shows "(or_false (s_completed ns) \<and> \<not> was \<longrightarrow>
            handlePaymentStatusChanges today allProjects editingProjectId newProjectData s =
              (let income = \<lparr>date = (case s_due_date ns of
                                        Some d \<Rightarrow> (if d = [] then today else d) | None \<Rightarrow> today),
                              entry_type = ''income'',
                              title = ''Project Payment: '' @ p_name newProjectData,
                              description = ''Full payment from '' @ contactName newProjectData,
                              amount = total_amount newProjectData\<rparr>
               in s\<lparr>db := db s @ [row_of (next_id s) income],
                     allTransactions := db s @ [row_of (next_id s) income],
                     next_id := Suc (next_id s),
                     calls := calls s @ [Insert income]\<rparr>))
       \<and> (\<not> or_false (s_completed ns) \<and> was \<longrightarrow>
            handlePaymentStatusChanges today allProjects editingProjectId newProjectData s =
              (case find (\<lambda>t. entry_type t = ''income''
                             \<and> title t = ''Project Payment: '' @ p_name newProjectData) (db s) of
                 None \<Rightarrow> s
               | Some m \<Rightarrow> s\<lparr>db := remove1 m (db s), allTransactions := remove1 m (db s),
                              calls := calls s @ [Delete (t_id m)]\<rparr>))
       \<and> (or_false (s_completed ns) = was \<longrightarrow>
            handlePaymentStatusChanges today allProjects editingProjectId newProjectData s = s)"
proof -
  have route: "handlePaymentStatusChanges today allProjects editingProjectId newProjectData s
        = handleFullPaymentChanges today newProjectData ns (payment_schedule orig) s"
    using assms(3-5)
    by (simp add: handlePaymentStatusChanges_def route_payment_handler_def)
  have create: "createFullPaymentIncome today newProjectData ns s =
              (let income = \<lparr>date = (case s_due_date ns of
                                        Some d \<Rightarrow> (if d = [] then today else d) | None \<Rightarrow> today),
                              entry_type = ''income'',
                              title = ''Project Payment: '' @ p_name newProjectData,
                              description = ''Full payment from '' @ contactName newProjectData,
                              amount = total_amount newProjectData\<rparr>
               in s\<lparr>db := db s @ [row_of (next_id s) income],
                     allTransactions := db s @ [row_of (next_id s) income],
                     next_id := Suc (next_id s),
                     calls := calls s @ [Insert income]\<rparr>)"
    using saveEntry_insert[OF assms(1)]
    by (simp add: createFullPaymentIncome_def Let_def or_string_def)
  show ?thesis
    unfolding route
    using create removeFullPaymentIncome_eq[OF assms(1,2), of "p_name newProjectData"] assms(6)
    by (auto simp: handleFullPaymentChanges_def Let_def)
qed

lemma empty_store_consistent: "store_consistent empty_store"
  by (simp add: store_consistent_def empty_store_def)

lemma one_full_income_consistent: "store_consistent one_full_income"
  by (simp add: store_consistent_def one_full_income_def)

theorem C2_full_payment_toggle_witness:
  "handlePaymentStatusChanges ''2025-08-01''
     [website ''invoice'' (full_of ''2025-08-05'' False)] (IdNum 7)
     (website ''completed'' (full_of ''2025-08-05'' True)) empty_store = one_full_income
   \<and> handlePaymentStatusChanges ''2025-08-01''
     [website ''completed'' (full_of ''2025-08-05'' True)] (IdNum 7)
     (website ''invoice'' (full_of ''2025-08-05'' False)) one_full_income
     = one_full_income\<lparr>db := [], allTransactions := [], calls := calls one_full_income @ [Delete 1]\<rparr>"
proof -
  have a: "handlePaymentStatusChanges ''2025-08-01''
     [website ''invoice'' (full_of ''2025-08-05'' False)] (IdNum 7)
     (website ''completed'' (full_of ''2025-08-05'' True)) empty_store = one_full_income"
    using C2_full_payment_toggle[of empty_store "IdNum 7"
        "[website ''invoice'' (full_of ''2025-08-05'' False)]"
        "website ''invoice'' (full_of ''2025-08-05'' False)"
        "website ''completed'' (full_of ''2025-08-05'' True)"
        "full_of ''2025-08-05'' True" False "''2025-08-01''"]
      empty_store_consistent
    by (simp add: website_def full_of_def or_false_def empty_store_def one_full_income_def row_of_def)
  have b: "handlePaymentStatusChanges ''2025-08-01''
     [website ''completed'' (full_of ''2025-08-05'' True)] (IdNum 7)
     (website ''invoice'' (full_of ''2025-08-05'' False)) one_full_income
     = one_full_income\<lparr>db := [], allTransactions := [], calls := calls one_full_income @ [Delete 1]\<rparr>"
    using C2_full_payment_toggle[of one_full_income "IdNum 7"
        "[website ''completed'' (full_of ''2025-08-05'' True)]"
        "website ''completed'' (full_of ''2025-08-05'' True)"
        "website ''invoice'' (full_of ''2025-08-05'' False)"
        "full_of ''2025-08-05'' False" True "''2025-08-01''"]
      one_full_income_consistent
    by (simp add: website_def full_of_def or_false_def one_full_income_def)
  show ?thesis using a b by simp
qed


lemma createMilestoneIncome_online:
  assumes "online s"
  shows "online (createMilestoneIncome today pd m i s)"
    and "inserted (calls (createMilestoneIncome today pd m i s)) =
         inserted (calls s) @
           [\<lparr>date = (case m_due_date m of Some d \<Rightarrow> (if d = [] then today else d) | None \<Rightarrow> today),
             entry_type = ''income'',
             title = ''Milestone payment from '' @ p_name pd,
             description = ''Milestone payment for '' @ p_name pd
                      @ '' (Milestone '' @ string_of_nat (i + 1) @ '')'',
             amount = total_amount pd * (percentage m / 100)\<rparr>]"
  using assms
  by (simp_all add: createMilestoneIncome_def saveEntry_def refetchTransactionData_def Let_def
      or_string_def inserted_append)

lemma removeMilestoneIncome_frame:
  "online (removeMilestoneIncome projectName n s) = online s"
  "inserted (calls (removeMilestoneIncome projectName n s)) = inserted (calls s)"
  by (simp_all add: removeMilestoneIncome_def deleteTransaction_def refetchTransactionData_def
      Let_def inserted_append split: option.splits)

lemma analyze_newly_paid:
  "analyzeMilestoneStatusChange m (js_index olds i) = NEWLY_PAID
     \<longleftrightarrow> (or_false (m_completed m) \<and> \<not> (i < length olds \<and> or_false (m_completed (olds ! i))))"
  by (simp add: analyzeMilestoneStatusChange_def js_index_def Let_def)

lemma staggered_loop_inserted:
  assumes "online s" and "rest = drop k news"
  shows "\<exists>s'. staggered_loop today pd (Some olds) k rest s = Returned s' \<and> online s'
          \<and> inserted (calls s') = inserted (calls s)
               @ map (milestone_income today pd news) (filter (newly_paid news olds) [k..<length news])"
  using assms
proof (induction rest arbitrary: k s)
  case Nil
  then have "length news \<le> k" by simp
  with Nil show ?case by simp
next
  case (Cons m rest)
  have k: "k < length news" using Cons.prems(2)
    by (metis drop_all list.distinct(1) not_le)
  have m: "news ! k = m" and rest: "rest = drop (Suc k) news"
    using Cons.prems(2) k by (metis Cons_nth_drop_Suc list.inject)+
  have upt: "[k..<length news] = k # [Suc k..<length news]"
    using k by (simp add: upt_conv_Cons)
  have np: "newly_paid news olds k \<longleftrightarrow> analyzeMilestoneStatusChange m (js_index olds k) = NEWLY_PAID"
    by (simp add: newly_paid_def analyze_newly_paid m)
  show ?case
  proof (cases "analyzeMilestoneStatusChange m (js_index olds k)")
    case NEWLY_PAID
    let ?s1 = "createMilestoneIncome today pd m k s"
    have on: "online ?s1" by (rule createMilestoneIncome_online(1)[OF Cons.prems(1)])
    from Cons.IH[OF on rest] obtain s' where
      s': "staggered_loop today pd (Some olds) (Suc k) rest ?s1 = Returned s'" "online s'"
        "inserted (calls s') = inserted (calls ?s1)
               @ map (milestone_income today pd news) (filter (newly_paid news olds) [Suc k..<length news])"
      by blast
    have "inserted (calls ?s1) = inserted (calls s) @ [milestone_income today pd news k]"
      using createMilestoneIncome_online(2)[OF Cons.prems(1), of today pd m k]
      by (simp add: milestone_income_def m)
    with s' NEWLY_PAID np show ?thesis by (simp add: upt)
  next
    case UNPAID
    let ?s1 = "removeMilestoneIncome (p_name pd) (k + 1) s"
    have on: "online ?s1" using Cons.prems(1) by (simp add: removeMilestoneIncome_frame)
    from Cons.IH[OF on rest] obtain s' where
      s': "staggered_loop today pd (Some olds) (Suc k) rest ?s1 = Returned s'" "online s'"
        "inserted (calls s') = inserted (calls ?s1)
               @ map (milestone_income today pd news) (filter (newly_paid news olds) [Suc k..<length news])"
      by blast
    with UNPAID np show ?thesis by (simp add: upt removeMilestoneIncome_frame)
  next
    case NO_CHANGE
    from Cons.IH[OF Cons.prems(1) rest] obtain s' where
      s': "staggered_loop today pd (Some olds) (Suc k) rest s = Returned s'" "online s'"
        "inserted (calls s') = inserted (calls s)
               @ map (milestone_income today pd news) (filter (newly_paid news olds) [Suc k..<length news])"
      by blast
    with NO_CHANGE np show ?thesis by (simp add: upt)
  qed
qed

lemma staggered_save_inserted:
  assumes "online s"
      and "find (\<lambda>p. p_id p = editingProjectId) allProjects = Some orig"
      and "payment_schedule newProjectData = Some ns" and "sched_type ns = ''staggered''"
      and "payment_schedule orig = Some os" and "sched_type os = ''staggered''"
      and "milestones ns = Some news" and "milestones os = Some olds"
  shows "inserted (calls (handlePaymentStatusChanges today allProjects editingProjectId newProjectData s))
       = inserted (calls s)
         @ map (milestone_income today newProjectData news) (filter (newly_paid news olds) [0..<length news])"
proof -
  obtain s' where s': "staggered_loop today newProjectData (Some olds) 0 news s = Returned s'"
     "inserted (calls s') = inserted (calls s)
               @ map (milestone_income today newProjectData news) (filter (newly_paid news olds) [0..<length news])"
    using staggered_loop_inserted[OF assms(1), of news 0 news today newProjectData olds] by auto
  have "handlePaymentStatusChanges today allProjects editingProjectId newProjectData s = s'"
    using assms(2-8) s'(1)
    by (simp add: handlePaymentStatusChanges_def route_payment_handler_def
        handleStaggeredPaymentChanges_def)
  then show ?thesis using s'(2) by simp
qed





text \<open>
  The rounding is to a nearest double: \<open>binade\<close> brackets its argument between two powers
  of two, the result is within half a unit in the last place, and the well-known values
  come out (0.1, and 0.1 + 0.2 one unit above 0.3; ties go to the even significand).
\<close>

lemma binade_bounds:
  assumes "0 < x"
  shows "pow2 (binade x) \<le> x \<and> x < pow2 (binade x + 1)"
proof (cases "1 \<le> x")
  case True
  let ?n = "\<lfloor>x\<rfloor>"
  have n: "0 < ?n" using True by linarith
  have b: "2 ^ nat (bitlen ?n - 1) \<le> ?n \<and> ?n < 2 ^ nat (bitlen ?n)"
    by (rule bitlen_bounds[OF n])
  have bl: "1 \<le> bitlen ?n" using n by (simp add: bitlen_def floorlog_def)
  have lo: "(2::rat) ^ nat (bitlen ?n - 1) \<le> x"
  proof -
    have "(of_int (2 ^ nat (bitlen ?n - 1)) :: rat) \<le> of_int ?n" using b by (simp only: of_int_le_iff)
    also have "\<dots> \<le> x" by simp
    finally show ?thesis by simp
  qed
  have hi: "x < (2::rat) ^ nat (bitlen ?n)"
  proof -
    have "?n + 1 \<le> 2 ^ nat (bitlen ?n)" using b by simp
    then have "(of_int (?n + 1) :: rat) \<le> of_int (2 ^ nat (bitlen ?n))" by (simp only: of_int_le_iff)
    moreover have "x < of_int (?n + 1)" by linarith
    ultimately show ?thesis by simp
  qed
  have "nat (bitlen ?n - 1 + 1) = nat (bitlen ?n)" by simp
  then show ?thesis using True lo hi bl by (simp add: binade_def pow2_def)
next
  case False
  let ?y = "1 / x"
  let ?n = "\<lceil>?y\<rceil> - 1"
  have x1: "x < 1" using False by simp
  have y1: "1 < ?y" using assms x1 by simp
  have n: "0 < ?n" using y1 by linarith
  have b: "2 ^ nat (bitlen ?n - 1) \<le> ?n \<and> ?n < 2 ^ nat (bitlen ?n)"
    by (rule bitlen_bounds[OF n])
  have bl: "1 \<le> bitlen ?n" using n by (simp add: bitlen_def floorlog_def)
  have ylo: "(2::rat) ^ nat (bitlen ?n - 1) < ?y"
  proof -
    have "(of_int (2 ^ nat (bitlen ?n - 1)) :: rat) \<le> of_int ?n" using b by (simp only: of_int_le_iff)
    also have "\<dots> < ?y" by linarith
    finally show ?thesis by simp
  qed
  have yhi: "?y \<le> (2::rat) ^ nat (bitlen ?n)"
  proof -
    have c: "\<lceil>?y\<rceil> \<le> 2 ^ nat (bitlen ?n)" using b by simp
    have "?y \<le> of_int \<lceil>?y\<rceil>" by (rule le_of_int_ceiling)
    also have "\<dots> \<le> of_int (2 ^ nat (bitlen ?n))" using c by (simp only: of_int_le_iff)
    finally show ?thesis by simp
  qed
  have lo: "1 / (2::rat) ^ nat (bitlen ?n) \<le> x"
  proof -
    have "1 \<le> 2 ^ nat (bitlen ?n) * x" using yhi assms by (simp add: field_simps)
    then show ?thesis by (simp add: field_simps)
  qed
  have hi: "x < 1 / (2::rat) ^ nat (bitlen ?n - 1)"
  proof -
    have "2 ^ nat (bitlen ?n - 1) * x < 1" using ylo assms by (simp add: field_simps)
    then show ?thesis by (simp add: field_simps)
  qed
  show ?thesis
  proof (cases "bitlen ?n = 1")
    case True
    then show ?thesis using False lo hi x1 by (simp add: binade_def pow2_def)
  next
    case b2: False
    then have "2 \<le> bitlen ?n" using bl by simp
    moreover have "nat (bitlen ?n - 1) = nat (- (- bitlen ?n + 1))" by simp
    ultimately show ?thesis using False lo hi by (simp add: binade_def pow2_def)
  qed
qed


lemma round_half_even_error: "\<bar>of_int (round_half_even q) - q\<bar> \<le> 1 / 2"
proof -
  have "of_int \<lfloor>q\<rfloor> \<le> q" "q < of_int \<lfloor>q\<rfloor> + 1" by linarith+
  then show ?thesis by (auto simp: round_half_even_def Let_def)
qed

lemma pow2_pos: "0 < pow2 e"
  by (simp add: pow2_def)

lemma double_round_error:
  "\<bar>double_round x - x\<bar> \<le> pow2 (binade \<bar>x\<bar> - 52) / 2"
proof (cases "x = 0")
  case True
  then show ?thesis using pow2_pos[of "binade \<bar>x\<bar> - 52"] by (simp add: double_round_def)
next
  case False
  let ?u = "pow2 (binade \<bar>x\<bar> - 52)"
  have u: "0 < ?u" by (rule pow2_pos)
  have "double_round x - x = (of_int (round_half_even (x / ?u)) - x / ?u) * ?u"
    using False u by (simp add: double_round_def Let_def field_simps)
  then have "\<bar>double_round x - x\<bar> = \<bar>of_int (round_half_even (x / ?u)) - x / ?u\<bar> * ?u"
    using u by (simp add: abs_mult)
  also have "\<dots> \<le> 1 / 2 * ?u"
    using round_half_even_error[of "x / ?u"] u by (intro mult_right_mono) simp_all
  finally show ?thesis by simp
qed

lemma double_round_known_values:
  "double_round (1 / 10) = 3602879701896397 / 2 ^ 55"
  "js_add (double_round (1 / 10)) (double_round (2 / 10)) = double_round (3 / 10) + 1 / 2 ^ 54"
  "double_round (1 / 2 ^ 60) = 1 / 2 ^ 60"
  "double_round (2 ^ 53 + 1) = 2 ^ 53"
  "double_round (2 ^ 53 + 3) = 2 ^ 53 + 4"
  "double_round (- (1 / 3)) = - double_round (1 / 3)"
  by code_simp+



lemmas engine_defs =
  handlePaymentStatusChanges_def route_payment_handler_def handleStaggeredPaymentChanges_def
  handleFullPaymentChanges_def analyzeMilestoneStatusChange_def createMilestoneIncome_def
  createFullPaymentIncome_def removeMilestoneIncome_def removeFullPaymentIncome_def
  saveEntry_def deleteTransaction_def refetchTransactionData_def getAllTransactions_def
  js_index_def or_false_def or_string_def row_of_def Let_def

lemmas example_defs =
  website_def full_of_def staggered_of_def paid_50_def unpaid_50_def empty_store_def

text \<open>
  Three sequences of saves from the empty store, each save compared with the version
  saved before it. In the first the schedule goes full unpaid, full paid, staggered, full paid: two
  income rows titled "Project Payment: Website" remain. In the second a milestone is paid,
  the schedule is switched to full and back to staggered with the milestone unpaid, and the
  milestone is paid again: two income rows describe milestone 1. In the third the schedule
  stays staggered: both milestones are paid, the second is unmarked (the row found by its
  title is the one of milestone 1) and marked again: two income rows describe milestone 2.
\<close>

theorem C3_counterexample:
  "length (full_payment_records ''Website''
      (saves ''2025-08-01'' (website ''invoice'' (full_of ''2025-08-05'' False))
         [website ''completed'' (full_of ''2025-08-05'' True),
          website ''invoice'' (staggered_of [unpaid_50 ''2025-08-05'', unpaid_50 ''2025-09-05'']),
          website ''completed'' (full_of ''2025-08-05'' True)]
         empty_store)) = 2
   \<and> length (milestone_records ''Website'' 1
      (saves ''2025-08-01''
         (website ''invoice'' (staggered_of [unpaid_50 ''2025-08-05'', unpaid_50 ''2025-09-05'']))
         [website ''partially_paid'' (staggered_of [paid_50 ''2025-08-05'', unpaid_50 ''2025-09-05'']),
          website ''invoice'' (full_of ''2025-08-05'' False),
          website ''invoice'' (staggered_of [unpaid_50 ''2025-08-05'', unpaid_50 ''2025-09-05'']),
          website ''partially_paid'' (staggered_of [paid_50 ''2025-08-05'', unpaid_50 ''2025-09-05''])]
         empty_store)) = 2
   \<and> length (milestone_records ''Website'' 2
      (saves ''2025-08-01''
         (website ''invoice'' (staggered_of [unpaid_50 ''2025-08-05'', unpaid_50 ''2025-09-05'']))
         [website ''completed'' (staggered_of [paid_50 ''2025-08-05'', paid_50 ''2025-09-05'']),
          website ''partially_paid'' (staggered_of [paid_50 ''2025-08-05'', unpaid_50 ''2025-09-05'']),
          website ''completed'' (staggered_of [paid_50 ''2025-08-05'', paid_50 ''2025-09-05''])]
         empty_store)) = 2"
  by (simp add: full_payment_records_def milestone_records_def engine_defs example_defs
      string_of_nat_digit digit_char_def)

lemma staggered_loop_unchanged:
  assumes "\<forall>i<length rest. or_false (m_completed (rest ! i))
             = (k + i < length olds \<and> or_false (m_completed (olds ! (k + i))))"
  shows "staggered_loop today pd (Some olds) k rest s = Returned s"
  using assms
proof (induction rest arbitrary: k)
  case Nil
  then show ?case by simp
next
  case (Cons m rest)
  have "or_false (m_completed m) = (k < length olds \<and> or_false (m_completed (olds ! k)))"
    using Cons.prems by force
  then have nc: "analyzeMilestoneStatusChange m (js_index olds k) = NO_CHANGE"
    by (auto simp: analyzeMilestoneStatusChange_def js_index_def Let_def)
  have "\<forall>i<length rest. or_false (m_completed (rest ! i))
             = (Suc k + i < length olds \<and> or_false (m_completed (olds ! (Suc k + i))))"
    using Cons.prems by force
  then have "staggered_loop today pd (Some olds) (Suc k) rest s = Returned s"
    by (rule Cons.IH)
  with nc show ?case by simp
qed

lemma resave_unchanged:
  "handlePaymentStatusChanges today [projectData] (p_id projectData) projectData s = s"
proof (cases "payment_schedule projectData")
  case None
  then show ?thesis by (simp add: handlePaymentStatusChanges_def route_payment_handler_def)
next
  case (Some sch)
  show ?thesis
  proof (cases "milestones sch")
    case None
    then show ?thesis using Some
      by (simp add: handlePaymentStatusChanges_def route_payment_handler_def
          handleStaggeredPaymentChanges_def handleFullPaymentChanges_def Let_def)
  next
    case ms: (Some ms)
    have "staggered_loop today projectData (Some ms) 0 ms s = Returned s"
      by (rule staggered_loop_unchanged) simp
    then show ?thesis using Some ms
      by (simp add: handlePaymentStatusChanges_def route_payment_handler_def
          handleStaggeredPaymentChanges_def handleFullPaymentChanges_def Let_def)
  qed
qed

lemma staggered_loop_offline:
  assumes "\<not> online s"
  shows "staggered_loop today pd (Some olds) k rest s = Returned s"
proof (induction rest arbitrary: k)
  case Nil
  show ?case by simp
next
  case (Cons m rest)
  have c: "createMilestoneIncome today pd m k s = s"
    using assms by (simp add: createMilestoneIncome_def saveEntry_def)
  have r: "removeMilestoneIncome (p_name pd) (k + 1) s = s"
    using assms by (rule removeMilestoneIncome_offline)
  show ?case using Cons.IH[of "Suc k"] c r
    by (cases "analyzeMilestoneStatusChange m (js_index olds k)") simp_all
qed

lemma staggered_save_created:
  assumes "find (\<lambda>p. p_id p = editingProjectId) allProjects = Some orig"
      and "payment_schedule newProjectData = Some ns" and "sched_type ns = ''staggered''"
      and "payment_schedule orig = Some os" and "sched_type os = ''staggered''"
      and "milestones ns = Some news" and "milestones os = Some olds"
  shows "\<exists>is. inserted (calls (handlePaymentStatusChanges today allProjects editingProjectId newProjectData s))
               = inserted (calls s) @ map (milestone_income today newProjectData news) is
            \<and> distinct is \<and> (\<forall>i\<in>set is. i < length news \<and> newly_paid news olds i)"
proof (cases "online s")
  case True
  have "inserted (calls (handlePaymentStatusChanges today allProjects editingProjectId newProjectData s))
       = inserted (calls s)
         @ map (milestone_income today newProjectData news) (filter (newly_paid news olds) [0..<length news])"
    by (rule staggered_save_inserted[OF True assms])
  moreover have "distinct (filter (newly_paid news olds) [0..<length news])" by simp
  moreover have "\<forall>i\<in>set (filter (newly_paid news olds) [0..<length news]).
                   i < length news \<and> newly_paid news olds i" by simp
  ultimately show ?thesis by blast
next
  case False
  have "handlePaymentStatusChanges today allProjects editingProjectId newProjectData s = s"
    using assms staggered_loop_offline[OF False, of today newProjectData olds 0 news]
    by (simp add: handlePaymentStatusChanges_def route_payment_handler_def
        handleStaggeredPaymentChanges_def)
  then have "inserted (calls (handlePaymentStatusChanges today allProjects editingProjectId newProjectData s))
               = inserted (calls s) @ map (milestone_income today newProjectData news) []"
    by simp
  then show ?thesis by (metis distinct.simps(1) empty_iff list.set(1))
qed

lemma full_save_created:
  assumes "find (\<lambda>p. p_id p = editingProjectId) allProjects = Some orig"
      and "payment_schedule newProjectData = Some ns" and "sched_type ns = ''full''"
  shows "\<exists>es. inserted (calls (handlePaymentStatusChanges today allProjects editingProjectId newProjectData s))
               = inserted (calls s) @ es
            \<and> length es \<le> 1
            \<and> (es \<noteq> [] \<longrightarrow> or_false (s_completed ns)
                  \<and> \<not> (case payment_schedule orig of None \<Rightarrow> False
                        | Some os \<Rightarrow> or_false (s_completed os)))"
proof -
  let ?was = "case payment_schedule orig of None \<Rightarrow> False | Some os \<Rightarrow> or_false (s_completed os)"
  have route: "handlePaymentStatusChanges today allProjects editingProjectId newProjectData s
        = handleFullPaymentChanges today newProjectData ns (payment_schedule orig) s"
    using assms by (simp add: handlePaymentStatusChanges_def route_payment_handler_def)
  have rm: "inserted (calls (removeFullPaymentIncome (p_name newProjectData) s)) = inserted (calls s)"
    by (simp add: removeFullPaymentIncome_def deleteTransaction_def refetchTransactionData_def
        Let_def inserted_append split: option.splits)
  have cr: "\<exists>es. inserted (calls (createFullPaymentIncome today newProjectData ns s))
                  = inserted (calls s) @ es \<and> length es \<le> 1"
    by (cases "online s")
       (simp_all add: createFullPaymentIncome_def saveEntry_def refetchTransactionData_def
          Let_def inserted_append)
  show ?thesis
  proof (cases "or_false (s_completed ns) \<and> \<not> ?was")
    case True
    then show ?thesis using cr unfolding route
      by (auto simp: handleFullPaymentChanges_def Let_def)
  next
    case False
    then have "inserted (calls (handleFullPaymentChanges today newProjectData ns (payment_schedule orig) s))
               = inserted (calls s) @ []"
      using rm by (auto simp: handleFullPaymentChanges_def Let_def)
    then show ?thesis unfolding route by (metis le0 list.size(3))
  qed
qed

text \<open>
  C3, as amended. A save acts on transitions only. When the completed flag of the full
  schedule, or of every milestone of a staggered schedule, is what it was in the previous
  version, the store is left as it was; saving the same version of a project again, any
  number of times, leaves the store as it was. A save between two staggered schedules
  inserts at most one entry per milestone, and only for milestones that go from unpaid to
  paid; a save of a full schedule inserts at most one entry, and only when the flag goes
  from unpaid to paid.
\<close>

theorem C3_acts_on_transitions_only:
  "(find (\<lambda>p. p_id p = editingProjectId) allProjects = Some orig
     \<and> payment_schedule newProjectData = Some ns \<and> payment_schedule orig = Some os
     \<and> (sched_type ns = ''full'' \<and> or_false (s_completed ns) = or_false (s_completed os)
        \<or> sched_type ns = ''staggered'' \<and> sched_type os = ''staggered''
          \<and> milestones ns = Some news \<and> milestones os = Some olds
          \<and> (\<forall>i<length news. or_false (m_completed (news ! i))
                 = (i < length olds \<and> or_false (m_completed (olds ! i)))))
    \<longrightarrow> handlePaymentStatusChanges today allProjects editingProjectId newProjectData s = s)
   \<and> saves today projectData (replicate n projectData) s = s
   \<and> (find (\<lambda>p. p_id p = editingProjectId) allProjects = Some orig
       \<and> payment_schedule newProjectData = Some ns \<and> sched_type ns = ''staggered''
       \<and> payment_schedule orig = Some os \<and> sched_type os = ''staggered''
       \<and> milestones ns = Some news \<and> milestones os = Some olds
      \<longrightarrow> (\<exists>is. inserted (calls (handlePaymentStatusChanges today allProjects editingProjectId
                                   newProjectData s))
                   = inserted (calls s) @ map (milestone_income today newProjectData news) is
                \<and> distinct is
                \<and> (\<forall>i\<in>set is. i < length news \<and> or_false (m_completed (news ! i))
                       \<and> \<not> (i < length olds \<and> or_false (m_completed (olds ! i))))))
   \<and> (find (\<lambda>p. p_id p = editingProjectId) allProjects = Some orig
       \<and> payment_schedule newProjectData = Some ns \<and> sched_type ns = ''full''
      \<longrightarrow> (\<exists>es. inserted (calls (handlePaymentStatusChanges today allProjects editingProjectId
                                   newProjectData s))
                   = inserted (calls s) @ es
                \<and> length es \<le> 1
                \<and> (es \<noteq> [] \<longrightarrow> or_false (s_completed ns)
                      \<and> \<not> (case payment_schedule orig of None \<Rightarrow> False
                            | Some os \<Rightarrow> or_false (s_completed os)))))"
proof (intro conjI impI)
  assume h: "find (\<lambda>p. p_id p = editingProjectId) allProjects = Some orig
     \<and> payment_schedule newProjectData = Some ns \<and> payment_schedule orig = Some os
     \<and> (sched_type ns = ''full'' \<and> or_false (s_completed ns) = or_false (s_completed os)
        \<or> sched_type ns = ''staggered'' \<and> sched_type os = ''staggered''
          \<and> milestones ns = Some news \<and> milestones os = Some olds
          \<and> (\<forall>i<length news. or_false (m_completed (news ! i))
                 = (i < length olds \<and> or_false (m_completed (olds ! i)))))"
  then consider
      (full) "sched_type ns = ''full''" "or_false (s_completed ns) = or_false (s_completed os)"
    | (stag) "sched_type ns = ''staggered''" "sched_type os = ''staggered''"
          "milestones ns = Some news" "milestones os = Some olds"
          "\<forall>i<length news. or_false (m_completed (news ! i))
                 = (i < length olds \<and> or_false (m_completed (olds ! i)))"
    by blast
  then show "handlePaymentStatusChanges today allProjects editingProjectId newProjectData s = s"
  proof cases
    case full
    then show ?thesis using h
      by (simp add: handlePaymentStatusChanges_def route_payment_handler_def
          handleFullPaymentChanges_def Let_def)
  next
    case stag
    have "staggered_loop today newProjectData (Some olds) 0 news s = Returned s"
      by (rule staggered_loop_unchanged) (use stag(5) in simp)
    then show ?thesis using h stag
      by (simp add: handlePaymentStatusChanges_def route_payment_handler_def
          handleStaggeredPaymentChanges_def)
  qed
next
  show "saves today projectData (replicate n projectData) s = s"
    by (induction n) (simp_all add: resave_unchanged)
next
  assume h: "find (\<lambda>p. p_id p = editingProjectId) allProjects = Some orig
       \<and> payment_schedule newProjectData = Some ns \<and> sched_type ns = ''staggered''
       \<and> payment_schedule orig = Some os \<and> sched_type os = ''staggered''
       \<and> milestones ns = Some news \<and> milestones os = Some olds"
  show "\<exists>is. inserted (calls (handlePaymentStatusChanges today allProjects editingProjectId
                                   newProjectData s))
                   = inserted (calls s) @ map (milestone_income today newProjectData news) is
                \<and> distinct is
                \<and> (\<forall>i\<in>set is. i < length news \<and> or_false (m_completed (news ! i))
                       \<and> \<not> (i < length olds \<and> or_false (m_completed (olds ! i))))"
    using staggered_save_created[of editingProjectId allProjects orig newProjectData ns os news olds
        today s] h
    by (simp add: newly_paid_def)
next
  assume h: "find (\<lambda>p. p_id p = editingProjectId) allProjects = Some orig
       \<and> payment_schedule newProjectData = Some ns \<and> sched_type ns = ''full''"
  show "\<exists>es. inserted (calls (handlePaymentStatusChanges today allProjects editingProjectId
                                   newProjectData s))
                   = inserted (calls s) @ es
                \<and> length es \<le> 1
                \<and> (es \<noteq> [] \<longrightarrow> or_false (s_completed ns)
                      \<and> \<not> (case payment_schedule orig of None \<Rightarrow> False
                            | Some os \<Rightarrow> or_false (s_completed os)))"
    using full_save_created[of editingProjectId allProjects orig newProjectData ns today s] h
    by simp
qed

theorem C3_acts_on_transitions_only_witness:
  "handlePaymentStatusChanges ''2025-08-01''
      [website ''partially_paid'' (staggered_of [paid_50 ''2025-08-05'', unpaid_50 ''2025-09-05''])]
      (IdNum 7)
      (website ''partially_paid'' (staggered_of [paid_50 ''2025-08-06'', unpaid_50 ''2025-09-07'']))
      two_incomes = two_incomes
   \<and> (\<exists>es. inserted (calls (handlePaymentStatusChanges ''2025-08-01''
                [website ''invoice'' (full_of ''2025-08-05'' False)] (IdNum 7)
                (website ''completed'' (full_of ''2025-08-05'' True)) empty_store))
             = inserted (calls empty_store) @ es \<and> length es \<le> 1)
   \<and> (\<exists>is. inserted (calls (handlePaymentStatusChanges ''2025-08-01''
                [website ''invoice'' (staggered_of [unpaid_50 ''2025-08-05'', unpaid_50 ''2025-09-05''])]
                (IdNum 7)
                (website ''completed'' (staggered_of [paid_50 ''2025-08-05'', paid_50 ''2025-09-05'']))
                empty_store))
             = inserted (calls empty_store)
               @ map (milestone_income ''2025-08-01''
                        (website ''completed'' (staggered_of [paid_50 ''2025-08-05'', paid_50 ''2025-09-05'']))
                        [paid_50 ''2025-08-05'', paid_50 ''2025-09-05'']) is
           \<and> distinct is)"
proof -
  have a: "handlePaymentStatusChanges ''2025-08-01''
      [website ''partially_paid'' (staggered_of [paid_50 ''2025-08-05'', unpaid_50 ''2025-09-05''])]
      (IdNum 7)
      (website ''partially_paid'' (staggered_of [paid_50 ''2025-08-06'', unpaid_50 ''2025-09-07'']))
      two_incomes = two_incomes"
    by (rule C3_acts_on_transitions_only[
        where news = "[paid_50 ''2025-08-06'', unpaid_50 ''2025-09-07'']"
          and olds = "[paid_50 ''2025-08-05'', unpaid_50 ''2025-09-05'']"
          and ns = "staggered_of [paid_50 ''2025-08-06'', unpaid_50 ''2025-09-07'']"
          and os = "staggered_of [paid_50 ''2025-08-05'', unpaid_50 ''2025-09-05'']"
          and orig = "website ''partially_paid''
                        (staggered_of [paid_50 ''2025-08-05'', unpaid_50 ''2025-09-05''])",
        THEN conjunct1, THEN mp])
       (simp add: example_defs or_false_def less_Suc_eq)
  have b: "\<exists>es. inserted (calls (handlePaymentStatusChanges ''2025-08-01''
                [website ''invoice'' (full_of ''2025-08-05'' False)] (IdNum 7)
                (website ''completed'' (full_of ''2025-08-05'' True)) empty_store))
             = inserted (calls empty_store) @ es \<and> length es \<le> 1"
    using C3_acts_on_transitions_only[
        where ns = "full_of ''2025-08-05'' True"
          and orig = "website ''invoice'' (full_of ''2025-08-05'' False)"
          and allProjects = "[website ''invoice'' (full_of ''2025-08-05'' False)]"
          and editingProjectId = "IdNum 7"
          and newProjectData = "website ''completed'' (full_of ''2025-08-05'' True)"
          and today = "''2025-08-01''" and s = empty_store,
        THEN conjunct2, THEN conjunct2, THEN conjunct2]
    by (auto simp: example_defs)
  have c: "\<exists>is. inserted (calls (handlePaymentStatusChanges ''2025-08-01''
                [website ''invoice'' (staggered_of [unpaid_50 ''2025-08-05'', unpaid_50 ''2025-09-05''])]
                (IdNum 7)
                (website ''completed'' (staggered_of [paid_50 ''2025-08-05'', paid_50 ''2025-09-05'']))
                empty_store))
             = inserted (calls empty_store)
               @ map (milestone_income ''2025-08-01''
                        (website ''completed'' (staggered_of [paid_50 ''2025-08-05'', paid_50 ''2025-09-05'']))
                        [paid_50 ''2025-08-05'', paid_50 ''2025-09-05'']) is
           \<and> distinct is"
    using C3_acts_on_transitions_only[
        where ns = "staggered_of [paid_50 ''2025-08-05'', paid_50 ''2025-09-05'']"
          and os = "staggered_of [unpaid_50 ''2025-08-05'', unpaid_50 ''2025-09-05'']"
          and news = "[paid_50 ''2025-08-05'', paid_50 ''2025-09-05'']"
          and olds = "[unpaid_50 ''2025-08-05'', unpaid_50 ''2025-09-05'']"
          and orig = "website ''invoice'' (staggered_of [unpaid_50 ''2025-08-05'', unpaid_50 ''2025-09-05''])"
          and allProjects = "[website ''invoice'' (staggered_of [unpaid_50 ''2025-08-05'', unpaid_50 ''2025-09-05''])]"
          and editingProjectId = "IdNum 7"
          and newProjectData = "website ''completed'' (staggered_of [paid_50 ''2025-08-05'', paid_50 ''2025-09-05''])"
          and today = "''2025-08-01''" and s = empty_store,
        THEN conjunct2, THEN conjunct2, THEN conjunct1]
    by (auto simp: example_defs)
  show ?thesis using a b c by blast
qed



section \<open>Status derivation, aggregation and the day view\<close>

lemma count_rows_eq:
  "count_rows rows (t, c) =
     (t + length (filter active_row rows),
      c + length (filter row_completed (filter active_row rows)))"
  by (induction rows arbitrary: t c) (auto simp: active_row_def split: option.splits)

text \<open>
  C5. When the current status is invoice, partially_paid or completed: a full payment gives
  completed when its paid box is checked and invoice when it is unchecked or missing; a staggered payment, with
  the rows whose percentage is a number above zero as the active ones, gives invoice when
  no row is active or no active row is paid, completed when every active row is paid, and
  partially_paid otherwise. With any other current status, in particular inquiry and
  quotation, the form is left as it is. Rows whose percentage is not a number or is at
  most zero do not enter the counts.
\<close>

theorem C5_status_derivation:
  assumes "initialStatus f = Some cur"
  shows "(cur \<in> {''invoice'', ''partially_paid'', ''completed''} \<longrightarrow>
            (paymentType f = Some ''full'' \<longrightarrow>
               (full_payment_completed f = Some True \<longrightarrow>
                  autoUpdateProjectStatus f = f\<lparr>initialStatus := Some ''completed''\<rparr>)
             \<and> (full_payment_completed f \<noteq> Some True \<longrightarrow>
                  autoUpdateProjectStatus f = f\<lparr>initialStatus := Some ''invoice''\<rparr>))
          \<and> (paymentType f = Some ''staggered'' \<longrightarrow>
               autoUpdateProjectStatus f =
                 f\<lparr>initialStatus := Some
                     (let active = filter active_row (milestone_rows f);
                          paid = filter row_completed active
                      in if length active = 0 \<or> length paid = 0 then ''invoice''
                         else if length paid = length active then ''completed''
                         else ''partially_paid'')\<rparr>))
       \<and> (cur \<notin> {''invoice'', ''partially_paid'', ''completed''} \<longrightarrow> autoUpdateProjectStatus f = f)
       \<and> (cur = ''inquiry'' \<or> cur = ''quotation'' \<longrightarrow> autoUpdateProjectStatus f = f)
       \<and> count_rows (milestone_rows f) (0, 0)
           = count_rows (filter active_row (milestone_rows f)) (0, 0)"
  using assms
  by (auto simp: autoUpdateProjectStatus_def count_rows_eq Let_def or_false_def
      split: option.splits)

theorem C5_status_derivation_witness:
  "initialStatus (autoUpdateProjectStatus sample_form) = Some ''partially_paid''
   \<and> autoUpdateProjectStatus (sample_form\<lparr>initialStatus := Some ''quotation''\<rparr>)
       = sample_form\<lparr>initialStatus := Some ''quotation''\<rparr>
   \<and> initialStatus (autoUpdateProjectStatus paid_full_form) = Some ''completed''
   \<and> initialStatus (autoUpdateProjectStatus (paid_full_form\<lparr>full_payment_completed := Some False\<rparr>))
       = Some ''invoice''
   \<and> initialStatus (autoUpdateProjectStatus (paid_full_form\<lparr>full_payment_completed := None\<rparr>))
       = Some ''invoice''"
proof -
  have a: "initialStatus (autoUpdateProjectStatus sample_form) = Some ''partially_paid''"
    using C5_status_derivation[of sample_form "''invoice''"]
    by (simp add: sample_form_def active_row_def)
  have b: "autoUpdateProjectStatus (sample_form\<lparr>initialStatus := Some ''quotation''\<rparr>)
       = sample_form\<lparr>initialStatus := Some ''quotation''\<rparr>"
    using C5_status_derivation[of "sample_form\<lparr>initialStatus := Some ''quotation''\<rparr>" "''quotation''"]
    by simp
  have c: "initialStatus (autoUpdateProjectStatus paid_full_form) = Some ''completed''"
    using C5_status_derivation[of paid_full_form "''invoice''"]
    by (simp add: paid_full_form_def)
  have d: "initialStatus (autoUpdateProjectStatus (paid_full_form\<lparr>full_payment_completed := Some False\<rparr>))
       = Some ''invoice''"
    using C5_status_derivation[of "paid_full_form\<lparr>full_payment_completed := Some False\<rparr>" "''invoice''"]
    by (simp add: paid_full_form_def)
  have e: "initialStatus (autoUpdateProjectStatus (paid_full_form\<lparr>full_payment_completed := None\<rparr>))
       = Some ''invoice''"
    using C5_status_derivation[of "paid_full_form\<lparr>full_payment_completed := None\<rparr>" "''invoice''"]
    by (simp add: paid_full_form_def)
  show ?thesis using a b c d e by simp
qed


















lemma in_month_exclusive:
  "\<not> (in_month parseDate now q \<and> in_month parseDate (lastMonthDate now) q)"
  by (auto simp: in_month_def lastMonthDate_def split: option.splits if_splits)

lemma quotation_step_counted:
  assumes "in_month parseDate now q \<and> actualProjectId q \<in> projectsThisMonth st
         \<or> in_month parseDate (lastMonthDate now) q \<and> actualProjectId q \<in> projectsLastMonth st"
  shows "quotation_step parseDate now q st = st"
  using assms in_month_exclusive[of parseDate now q]
  by (auto simp: quotation_step_def Let_def)

lemma quotation_step_mono:
  "projectsThisMonth st \<subseteq> projectsThisMonth (quotation_step parseDate now q st)"
  "projectsLastMonth st \<subseteq> projectsLastMonth (quotation_step parseDate now q st)"
  by (auto simp: quotation_step_def Let_def)

lemma quotation_step_records:
  "in_month parseDate now q \<Longrightarrow>
     actualProjectId q \<in> projectsThisMonth (quotation_step parseDate now q st)"
  "in_month parseDate (lastMonthDate now) q \<Longrightarrow>
     actualProjectId q \<in> projectsLastMonth (quotation_step parseDate now q st)"
  using in_month_exclusive[of parseDate now q]
  by (auto simp: quotation_step_def Let_def)

lemma quotations_pass_mono_this:
  "projectsThisMonth st \<subseteq> projectsThisMonth (quotations_pass parseDate now qs st)"
proof (induction qs arbitrary: st)
  case Nil
  show ?case by simp
next
  case (Cons q qs)
  show ?case
    using Cons.IH[of "quotation_step parseDate now q st"] quotation_step_mono(1)[of st parseDate now q]
    by auto
qed

lemma quotations_pass_mono_last:
  "projectsLastMonth st \<subseteq> projectsLastMonth (quotations_pass parseDate now qs st)"
proof (induction qs arbitrary: st)
  case Nil
  show ?case by simp
next
  case (Cons q qs)
  show ?case
    using Cons.IH[of "quotation_step parseDate now q st"] quotation_step_mono(2)[of st parseDate now q]
    by auto
qed

lemma quotations_pass_append:
  "quotations_pass parseDate now (xs @ ys) st
     = quotations_pass parseDate now ys (quotations_pass parseDate now xs st)"
  by (induction xs arbitrary: st) simp_all

lemma quotations_pass_records:
  assumes "q0 \<in> set xs"
  shows "in_month parseDate now q0 \<Longrightarrow>
           actualProjectId q0 \<in> projectsThisMonth (quotations_pass parseDate now xs st)"
    and "in_month parseDate (lastMonthDate now) q0 \<Longrightarrow>
           actualProjectId q0 \<in> projectsLastMonth (quotations_pass parseDate now xs st)"
proof -
  obtain as bs where xs: "xs = as @ q0 # bs" using assms by (meson split_list)
  let ?st1 = "quotation_step parseDate now q0 (quotations_pass parseDate now as st)"
  have pass: "quotations_pass parseDate now xs st = quotations_pass parseDate now bs ?st1"
    by (simp add: xs quotations_pass_append)
  show "actualProjectId q0 \<in> projectsThisMonth (quotations_pass parseDate now xs st)"
    if "in_month parseDate now q0"
    using quotation_step_records(1)[OF that] quotations_pass_mono_this[of ?st1 parseDate now bs]
    unfolding pass by blast
  show "actualProjectId q0 \<in> projectsLastMonth (quotations_pass parseDate now xs st)"
    if "in_month parseDate (lastMonthDate now) q0"
    using quotation_step_records(2)[OF that] quotations_pass_mono_last[of ?st1 parseDate now bs]
    unfolding pass by blast
qed

lemma split_head_before:
  assumes "CHR ''_'' \<notin> set x"
  shows "split_head ''_milestone_'' (x @ ''_milestone_'' @ r) = x"
  using assms
proof (induction x)
  case Nil
  then show ?case by simp
next
  case (Cons c x)
  then have "c \<noteq> CHR ''_''" by auto
  with Cons show ?case by simp
qed

text \<open>
  C7. In the quotation pass an entry whose resolved project id equals that of an earlier
  entry of the list, both falling in the viewed month or both in the month before it,
  changes nothing: the pass, and so the whole summary, is the same as for the list without
  it. An entry without \<open>project_id\<close> whose id is \<open>X_milestone_i\<close>, with no underscore in
  \<open>X\<close>, resolves to the string \<open>X\<close>.
\<close>

theorem C7_quotation_dedup:
  assumes "q0 \<in> set xs" and "actualProjectId q0 = actualProjectId q"
      and "in_month parseDate now q0 \<and> in_month parseDate now q
         \<or> in_month parseDate (lastMonthDate now) q0 \<and> in_month parseDate (lastMonthDate now) q"
  shows "quotations_pass parseDate now (xs @ q # ys) st = quotations_pass parseDate now (xs @ ys) st
       \<and> processAllTransactions parseDate \<lparr>quotations = xs @ q # ys, invoices = ivs\<rparr> txns now
           = processAllTransactions parseDate \<lparr>quotations = xs @ ys, invoices = ivs\<rparr> txns now
       \<and> (q_project_id q = None \<and> q_id q = IdStr (x @ ''_milestone_'' @ i) \<and> CHR ''_'' \<notin> set x
            \<longrightarrow> actualProjectId q = IdStr x)"
proof -
  have skip: "quotations_pass parseDate now (xs @ q # ys) st' = quotations_pass parseDate now (xs @ ys) st'"
    for st'
  proof -
    let ?mid = "quotations_pass parseDate now xs st'"
    have "in_month parseDate now q \<and> actualProjectId q \<in> projectsThisMonth ?mid
         \<or> in_month parseDate (lastMonthDate now) q \<and> actualProjectId q \<in> projectsLastMonth ?mid"
      using assms(3) quotations_pass_records[OF assms(1), of parseDate now st'] assms(2) by auto
    then have "quotation_step parseDate now q ?mid = ?mid" by (rule quotation_step_counted)
    then show ?thesis by (simp add: quotations_pass_append)
  qed
  have id: "actualProjectId q = IdStr x"
    if "q_project_id q = None \<and> q_id q = IdStr (x @ ''_milestone_'' @ i) \<and> CHR ''_'' \<notin> set x"
    using that split_head_before[of x i] by (simp add: actualProjectId_def)
  show ?thesis
    using skip id by (simp add: processAllTransactions_def Let_def)
qed


lemma quote_ids:
  "actualProjectId quote_p7 = IdStr ''p7''" "actualProjectId quote_p7_milestone = IdStr ''p7''"
  by (simp_all add: actualProjectId_def quote_p7_def quote_p7_milestone_def)

theorem C7_quotation_dedup_witness:
  "processAllTransactions aug_dates \<lparr>quotations = [quote_p7, quote_p7_milestone], invoices = []\<rparr> [] aug_2025
     = processAllTransactions aug_dates \<lparr>quotations = [quote_p7], invoices = []\<rparr> [] aug_2025
   \<and> quotationCount (thisMonth (processAllTransactions aug_dates
         \<lparr>quotations = [quote_p7, quote_p7_milestone], invoices = []\<rparr> [] aug_2025)) = 1
   \<and> quotation_total (thisMonth (processAllTransactions aug_dates
         \<lparr>quotations = [quote_p7, quote_p7_milestone], invoices = []\<rparr> [] aug_2025)) = 1000"
proof -
  have h: "in_month aug_dates aug_2025 quote_p7 \<and> in_month aug_dates aug_2025 quote_p7_milestone
         \<or> in_month aug_dates (lastMonthDate aug_2025) quote_p7
           \<and> in_month aug_dates (lastMonthDate aug_2025) quote_p7_milestone"
    by (simp add: in_month_def aug_dates_def aug_2025_def quote_p7_def quote_p7_milestone_def or_opt_def)
  have m: "quote_p7 \<in> set [quote_p7]" by simp
  have i: "actualProjectId quote_p7 = actualProjectId quote_p7_milestone" by (simp add: quote_ids)
  note w = C7_quotation_dedup[OF m i h, of "[]" _ "[]" "[]", THEN conjunct2, THEN conjunct1]
  have e: "processAllTransactions aug_dates \<lparr>quotations = [quote_p7, quote_p7_milestone], invoices = []\<rparr> [] aug_2025
     = processAllTransactions aug_dates \<lparr>quotations = [quote_p7], invoices = []\<rparr> [] aug_2025"
    using w by simp
  have v: "quotationCount (thisMonth (processAllTransactions aug_dates
              \<lparr>quotations = [quote_p7], invoices = []\<rparr> [] aug_2025)) = 1
         \<and> quotation_total (thisMonth (processAllTransactions aug_dates
              \<lparr>quotations = [quote_p7], invoices = []\<rparr> [] aug_2025)) = 1000"
    by (simp add: processAllTransactions_def Let_def quotation_step_def in_month_def aug_dates_def
        aug_2025_def quote_p7_def or_opt_def actualProjectId_def initial_summary_def zero_totals_def)
  show ?thesis using e v by simp
qed

text \<open>
  C8. The day list of 2025-08-05 for a partially paid staggered project whose first
  milestone, due that day, is paid: the income row of the payment is listed, and so is the
  paid milestone itself, as a payable with \<open>is_paid\<close> true.
\<close>

theorem C8_paid_milestone_listed:
  "getTransactionsForDate ''2025-08-05'' (loadProjectData [part_paid_website]) [milestone_1_income]
     = [Txn milestone_1_income,
        Payable \<lparr>inv_id = IdStr ''7_milestone_0'', inv_project_id = IdNum 7,
                 inv_name = ''Website - Milestone 1'', inv_amount = 500,
                 inv_due_date = Some ''2025-08-05'', is_paid = True,
                 inv_project = Some part_paid_website, milestone_index = Some 0\<rparr>]"
  by (simp add: getTransactionsForDate_def project_invoices_def project_quotations_def
      shouldShowAsPayable_def part_paid_website_def milestone_1_income_def example_defs
      or_false_def or_string_def string_of_nat_digit digit_char_def Let_def)

end
